theory Spec2Isabelle
  imports Main
begin

section \<open>User service (services/user-service)\<close>

subsection \<open>Types (types/user.types.ts)\<close>

text \<open>
  A \<open>Date\<close> is a natural number (a point in time), \<open>string | null\<close> and an optional
  field \<open>f?: string\<close> are \<open>string option\<close>. The interface \<open>User\<close> has every field of
  \<open>UserResponse\<close> and four more, so it is the record extension. The field \<open>id\<close> is
  written \<open>id'\<close> (\<open>id\<close> is the identity function of HOL).
\<close>

type_synonym date = nat

record user_response =
  id' :: string
  email :: string
  first_name :: "string option"
  last_name :: "string option"
  phone :: "string option"
  role :: string
  is_email_verified :: bool
  created_at :: date

record user = user_response +
  password_hash :: string
  is_active :: bool
  updated_at :: date
  last_login_at :: "date option"

record register_request =
  email :: string
  password :: string
  first_name :: "string option"
  last_name :: "string option"
  phone :: "string option"

text \<open>
  A value of a request body as it arrives: a JSON value, or \<open>undefined\<close>. Arrays and
  objects as values are left out.
\<close>

datatype jsvalue = Undefined | Null | Str string | Num int | Bool bool

record login_request =
  email :: string
  password :: string

record login_response =
  user :: user_response
  token :: string
  refreshToken :: string

text \<open>
  Every \<open>throw new Error(msg)\<close> of the service is \<open>Error msg\<close>. \<open>QueryError\<close> is a
  statement the database rejects (a unique or primary key violation of
  migrations/001_create_users_table.sql, an unknown column); \<open>TypeError\<close> is the read
  of a property of \<open>undefined\<close>. \<open>message\<close> is \<open>error.message\<close>; the texts that
  the database and the runtime give their own errors are not modelled.
\<close>

datatype error = Error (message: string) | QueryError | TypeError

text \<open>
  What the service takes from libraries and from its surroundings: the Joi schemas of
  utils/validation.ts (a schema maps the data to the list of its detail messages or to
  the validated value), bcrypt and jsonwebtoken behind utils/auth.utils.ts, the
  database's \<open>gen_random_uuid()\<close> and \<open>CURRENT_TIMESTAMP\<close>.
\<close>

record env =
  registerSchema :: "register_request \<Rightarrow> string list + register_request"
  loginSchema :: "login_request \<Rightarrow> string list + login_request"
  hashPassword :: "string \<Rightarrow> string"
  comparePassword :: "string \<Rightarrow> string \<Rightarrow> bool"
  generateAccessToken :: "string \<Rightarrow> string \<Rightarrow> string \<Rightarrow> string"
  generateRefreshToken :: "string \<Rightarrow> string"
  gen_random_uuid :: string
  current_timestamp :: date

subsection \<open>Validation (utils/validation.ts)\<close>

text \<open>\<open>errors.join(', ')\<close>.\<close>

fun join :: "string \<Rightarrow> string list \<Rightarrow> string" where
  "join sep [] = []"
| "join sep [x] = x"
| "join sep (x # y # ys) = x @ sep @ join sep (y # ys)"

definition validate :: "('d \<Rightarrow> string list + 'v) \<Rightarrow> 'd \<Rightarrow> error + 'v" where
  "validate schema data =
     (case schema data of
        Inl details \<Rightarrow> Inl (Error (join '', '' details))
      | Inr v \<Rightarrow> Inr v)"

subsection \<open>Repository (repositories/user.repository.ts)\<close>

text \<open>
  The table \<open>users\<close> is the list of its rows. \<open>result.rows[0] || null\<close> is the first
  row that matches. Lost connections and the length limits of the columns are outside
  the model.
\<close>

definition findById :: "user list \<Rightarrow> string \<Rightarrow> user option" where
  "findById users i = find (\<lambda>u. id' u = i) users"

definition findByEmail :: "user list \<Rightarrow> string \<Rightarrow> user option" where
  "findByEmail users e = find (\<lambda>u. user_response.email u = e) users"

text \<open>\<open>firstName || null\<close>: an absent or empty string becomes \<open>null\<close>.\<close>

definition or_null :: "string option \<Rightarrow> string option" where
  "or_null v = (case v of None \<Rightarrow> None | Some s \<Rightarrow> if s = [] then None else Some s)"

text \<open>
  \<open>INSERT INTO users (email, password_hash, first_name, last_name, phone) ... RETURNING *\<close>:
  the other columns take their defaults; the statement fails when the email or the
  new id is already in the table (\<open>UNIQUE\<close>, \<open>PRIMARY KEY\<close>).
\<close>

definition create ::
  "env \<Rightarrow> user list \<Rightarrow> string \<Rightarrow> string \<Rightarrow> string option \<Rightarrow> string option \<Rightarrow> string option
     \<Rightarrow> error + (user \<times> user list)" where
  "create env users e passwordHash firstName lastName ph =
     (if list_ex (\<lambda>u. user_response.email u = e \<or> id' u = gen_random_uuid env) users
      then Inl QueryError
      else
        (let row = \<lparr> id' = gen_random_uuid env,
                       user_response.email = e,
                       user_response.first_name = or_null firstName,
                       user_response.last_name = or_null lastName,
                       user_response.phone = or_null ph,
                       role = ''customer'',
                       is_email_verified = False,
                       created_at = current_timestamp env,
                       password_hash = passwordHash,
                       is_active = True,
                       updated_at = current_timestamp env,
                       last_login_at = None \<rparr>
         in Inr (row, users @ [row])))"

text \<open>
  \<open>update\<close> builds the text of its statement from the keys of \<open>updates\<close>: one
  \<open>key = $n\<close> for every entry whose value is not \<open>undefined\<close>, then
  \<open>updated_at = CURRENT_TIMESTAMP\<close>, joined into the \<open>SET\<close> clause; the values and the
  id are the parameters. \<open>updates\<close> is the list of the entries of the object, in the
  order of \<open>Object.entries\<close>. The other methods of the repository send fixed statements
  and are modelled by what those do; what this statement does depends on the keys, so
  the database is an argument here: \<open>pool_query\<close> takes the text and the parameters
  and gives the rows returned and the table as the statement leaves it, or fails. The
  result is \<open>result.rows[0]\<close>: \<open>None\<close> when no row is returned.
\<close>

definition digit :: "nat \<Rightarrow> char" where
  "digit n = ''0123456789'' ! (n mod 10)"

function show_nat :: "nat \<Rightarrow> string" where
  "show_nat n = (if n < 10 then [digit n] else show_nat (n div 10) @ [digit n])"
  by pat_completeness auto
termination
  by (relation "measure (\<lambda>n. n)") auto

fun entries_loop ::
  "(string \<times> jsvalue) list \<Rightarrow> string list \<Rightarrow> jsvalue list \<Rightarrow> nat
     \<Rightarrow> string list \<times> jsvalue list \<times> nat" where
  "entries_loop [] fields' vals paramCount = (fields', vals, paramCount)"
| "entries_loop ((key, v) # rest) fields' vals paramCount =
     (if v \<noteq> Undefined
      then entries_loop rest (fields' @ [key @ '' = $'' @ show_nat paramCount]) (vals @ [v])
             (paramCount + 1)
      else entries_loop rest fields' vals paramCount)"

definition update_query :: "string list \<Rightarrow> nat \<Rightarrow> string" where
  "update_query fields' paramCount =
     ''\<newline>      UPDATE users \<newline>      SET '' @ join '', '' fields'
       @ ''\<newline>      WHERE id = $'' @ show_nat paramCount
       @ ''\<newline>      RETURNING *\<newline>    ''"

definition update ::
  "(string \<Rightarrow> jsvalue list \<Rightarrow> user list \<Rightarrow> error + (user list \<times> user list))
     \<Rightarrow> user list \<Rightarrow> string \<Rightarrow> (string \<times> jsvalue) list \<Rightarrow> error + (user option \<times> user list)" where
  "update pool_query users i updates =
     (case entries_loop updates [] [] 1 of
        (fields', vals, paramCount) \<Rightarrow>
          (case pool_query (update_query (fields' @ [''updated_at = CURRENT_TIMESTAMP'']) paramCount)
                  (vals @ [Str i]) users of
             Inl e \<Rightarrow> Inl e
           | Inr (rows, users') \<Rightarrow>
               Inr (case rows of [] \<Rightarrow> None | r # _ \<Rightarrow> Some r, users')))"

definition updateLastLogin :: "env \<Rightarrow> user list \<Rightarrow> string \<Rightarrow> user list" where
  "updateLastLogin env users i =
     map (\<lambda>u. if id' u = i
               then u\<lparr> last_login_at := Some (current_timestamp env),
                       updated_at := current_timestamp env \<rparr>
               else u) users"

subsection \<open>Service (services/user.service.ts)\<close>

text \<open>
  Each operation returns its result (the error thrown, or the value returned) and the
  table as it leaves it.
\<close>

definition toUserResponse :: "user \<Rightarrow> user_response" where
  "toUserResponse u =
     \<lparr> id' = id' u,
       user_response.email = user_response.email u,
       user_response.first_name = user_response.first_name u,
       user_response.last_name = user_response.last_name u,
       user_response.phone = user_response.phone u,
       role = role u,
       is_email_verified = is_email_verified u,
       created_at = created_at u \<rparr>"

definition register ::
  "env \<Rightarrow> register_request \<Rightarrow> user list \<Rightarrow> (error + user_response) \<times> user list" where
  "register env data users =
     (case validate (registerSchema env) data of
        Inl e \<Rightarrow> (Inl e, users)
      | Inr validatedData \<Rightarrow>
          (case findByEmail users (register_request.email validatedData) of
             Some existingUser \<Rightarrow> (Inl (Error ''User with this email already exists''), users)
           | None \<Rightarrow>
               (let passwordHash = hashPassword env (register_request.password validatedData)
                in case create env users
                          (register_request.email validatedData)
                          passwordHash
                          (register_request.first_name validatedData)
                          (register_request.last_name validatedData)
                          (register_request.phone validatedData) of
                     Inl e \<Rightarrow> (Inl e, users)
                   | Inr (u, users') \<Rightarrow> (Inr (toUserResponse u), users'))))"

definition login ::
  "env \<Rightarrow> login_request \<Rightarrow> user list \<Rightarrow> (error + login_response) \<times> user list" where
  "login env data users =
     (case validate (loginSchema env) data of
        Inl e \<Rightarrow> (Inl e, users)
      | Inr validatedData \<Rightarrow>
          (case findByEmail users (login_request.email validatedData) of
             None \<Rightarrow> (Inl (Error ''Invalid email or password''), users)
           | Some u \<Rightarrow>
               if \<not> is_active u then (Inl (Error ''Account is deactivated''), users)
               else if \<not> comparePassword env (login_request.password validatedData) (password_hash u)
               then (Inl (Error ''Invalid email or password''), users)
               else
                 (Inr \<lparr> user = toUserResponse u,
                        token = generateAccessToken env (id' u) (user_response.email u) (role u),
                        refreshToken = generateRefreshToken env (id' u) \<rparr>,
                  updateLastLogin env users (id' u))))"

definition getProfile :: "string \<Rightarrow> user list \<Rightarrow> (error + user_response) \<times> user list" where
  "getProfile userId users =
     (case findById users userId of
        None \<Rightarrow> (Inl (Error ''User not found''), users)
      | Some u \<Rightarrow> (Inr (toUserResponse u), users))"

text \<open>
  \<open>updateProfile(userId, updates)\<close>. The controller calls it with \<open>req.body\<close> as it
  arrives (\<open>updateProfileSchema\<close> is not applied), so \<open>updates\<close> is any object.
\<close>

definition updateProfile ::
  "(string \<Rightarrow> jsvalue list \<Rightarrow> user list \<Rightarrow> error + (user list \<times> user list))
     \<Rightarrow> string \<Rightarrow> (string \<times> jsvalue) list \<Rightarrow> user list \<Rightarrow> (error + user_response) \<times> user list" where
  "updateProfile pool_query userId updates users =
     (case findById users userId of
        None \<Rightarrow> (Inl (Error ''User not found''), users)
      | Some u \<Rightarrow>
          (case update pool_query users userId updates of
             Inl e \<Rightarrow> (Inl e, users)
           | Inr (None, users') \<Rightarrow> (Inl TypeError, users')
           | Inr (Some updatedUser, users') \<Rightarrow> (Inr (toUserResponse updatedUser), users')))"

subsection \<open>Tables that differ only in the stored password hashes\<close>

text \<open>\<open>rehash g users\<close> is the table \<open>users\<close> with the hash of every row \<open>u\<close> replaced by \<open>g u\<close>.\<close>

definition rehash :: "(user \<Rightarrow> string) \<Rightarrow> user list \<Rightarrow> user list" where
  "rehash g users = map (\<lambda>u. u\<lparr>password_hash := g u\<rparr>) users"

subsection \<open>Sample data\<close>

text \<open>
  Schemas that accept every request, a salted hash (two characters of salt before the
  password, so one password has several valid hashes, as with bcrypt), and a table
  with an active and a deactivated account.
\<close>

definition env0 :: env where
  "env0 = \<lparr> registerSchema = Inr,
            loginSchema = Inr,
            hashPassword = (\<lambda>p. ''s1'' @ p),
            comparePassword = (\<lambda>p h. drop 2 h = p),
            generateAccessToken = (\<lambda>i e r. i @ ''.'' @ e @ ''.'' @ r),
            generateRefreshToken = (\<lambda>i. i),
            gen_random_uuid = ''550e8400-e29b-41d4-a716-446655440009'',
            current_timestamp = 100 \<rparr>"

definition alice :: user where
  "alice = \<lparr> id' = ''550e8400-e29b-41d4-a716-446655440003'', user_response.email = ''alice@example.com'',
             user_response.first_name = Some ''Alice'', user_response.last_name = None,
             user_response.phone = None, role = ''customer'', is_email_verified = True,
             created_at = 10, password_hash = ''s1wonderland'', is_active = True,
             updated_at = 10, last_login_at = None \<rparr>"

definition bob :: user where
  "bob = \<lparr> id' = ''550e8400-e29b-41d4-a716-446655440006'', user_response.email = ''bob@example.com'',
           user_response.first_name = Some ''Bob'', user_response.last_name = None,
           user_response.phone = None, role = ''customer'', is_email_verified = False,
           created_at = 20, password_hash = ''s1builder'', is_active = False,
           updated_at = 30, last_login_at = None \<rparr>"

definition users0 :: "user list" where
  "users0 = [alice, bob]"

text \<open>
  What PostgreSQL does with a statement of \<open>update\<close>, for the part of SQL that the
  sample requests use: \<open>UPDATE users SET\<close>, assignments \<open>column = expression\<close>
  separated by commas, \<open>WHERE id = $n RETURNING *\<close>. A target is one of the text
  columns email, password_hash, first_name, last_name, phone and role, or updated_at
  with \<open>CURRENT_TIMESTAMP\<close>; an expression is a parameter \<open>$n\<close> (a string or null) or
  a text column, read from the row as it was before the statement. Two assignments to
  one column, \<open>NULL\<close> in email or password_hash, a role other than customer and
  admin, and an email that another row has are errors; the trigger sets updated_at.
  Every other statement is answered with \<open>QueryError\<close> here.
\<close>

fun tokens :: "string \<Rightarrow> string \<Rightarrow> string list" where
  "tokens [] cur = (if cur = [] then [] else [cur])"
| "tokens (c # cs) cur =
     (if c = CHR '' '' \<or> c = CHR ''\<newline>''
      then (if cur = [] then tokens cs [] else cur # tokens cs [])
      else if c = CHR '','' \<or> c = CHR ''=''
      then (if cur = [] then [c] # tokens cs [] else cur # [c] # tokens cs [])
      else tokens cs (cur @ [c]))"

fun read_nat :: "string \<Rightarrow> nat \<Rightarrow> nat" where
  "read_nat [] n = n"
| "read_nat (c # cs) n = read_nat cs (10 * n + (of_char c - 48))"

definition param_index :: "string \<Rightarrow> nat option" where
  "param_index t =
     (case t of
        [] \<Rightarrow> None
      | c # ds \<Rightarrow>
          if c = CHR ''$'' \<and> ds \<noteq> [] \<and> list_all (\<lambda>d. d \<in> set ''0123456789'') ds
          then Some (read_nat ds 0)
          else None)"

fun parse_set ::
  "string list \<Rightarrow> (string \<times> string) list \<Rightarrow> ((string \<times> string) list \<times> string list) option" where
  "parse_set (col # eq # e # sep # rest) acc =
     (if eq \<noteq> ''='' then None
      else if sep = '','' then parse_set rest (acc @ [(col, e)])
      else if sep = ''WHERE'' then Some (acc @ [(col, e)], rest)
      else None)"
| "parse_set ts acc = None"

definition text_column :: "user \<Rightarrow> string \<Rightarrow> string option option" where
  "text_column u c =
     (if c = ''email'' then Some (Some (user_response.email u))
      else if c = ''password_hash'' then Some (Some (password_hash u))
      else if c = ''first_name'' then Some (user_response.first_name u)
      else if c = ''last_name'' then Some (user_response.last_name u)
      else if c = ''phone'' then Some (user_response.phone u)
      else if c = ''role'' then Some (Some (role u))
      else None)"

definition expression :: "jsvalue list \<Rightarrow> user \<Rightarrow> string \<Rightarrow> string option option" where
  "expression vals u e =
     (case param_index e of
        Some n \<Rightarrow>
          (if 1 \<le> n \<and> n \<le> length vals
           then (case vals ! (n - 1) of Str s \<Rightarrow> Some (Some s) | Null \<Rightarrow> Some None | _ \<Rightarrow> None)
           else None)
      | None \<Rightarrow> text_column u e)"

definition assign :: "date \<Rightarrow> jsvalue list \<Rightarrow> user \<Rightarrow> string \<times> string \<Rightarrow> user \<Rightarrow> user option" where
  "assign now vals old a new =
     (case a of
        (c, e) \<Rightarrow>
          if c = ''updated_at''
          then (if e = ''CURRENT_TIMESTAMP'' then Some (new\<lparr>updated_at := now\<rparr>) else None)
          else
            (case expression vals old e of
               None \<Rightarrow> None
             | Some v \<Rightarrow>
                 if c = ''first_name'' then Some (new\<lparr>user_response.first_name := v\<rparr>)
                 else if c = ''last_name'' then Some (new\<lparr>user_response.last_name := v\<rparr>)
                 else if c = ''phone'' then Some (new\<lparr>user_response.phone := v\<rparr>)
                 else
                   (case v of
                      None \<Rightarrow> None
                    | Some t \<Rightarrow>
                        if c = ''email'' then Some (new\<lparr>user_response.email := t\<rparr>)
                        else if c = ''password_hash'' then Some (new\<lparr>password_hash := t\<rparr>)
                        else if c = ''role'' \<and> (t = ''customer'' \<or> t = ''admin'')
                        then Some (new\<lparr>role := t\<rparr>)
                        else None)))"

fun assign_all ::
  "date \<Rightarrow> jsvalue list \<Rightarrow> user \<Rightarrow> (string \<times> string) list \<Rightarrow> user \<Rightarrow> user option" where
  "assign_all now vals old [] new = Some new"
| "assign_all now vals old (a # rest) new =
     (case assign now vals old a new of
        None \<Rightarrow> None
      | Some n \<Rightarrow> assign_all now vals old rest n)"

definition run_update ::
  "date \<Rightarrow> jsvalue list \<Rightarrow> (string \<times> string) list \<Rightarrow> string \<Rightarrow> user list
     \<Rightarrow> error + (user list \<times> user list)" where
  "run_update now vals assignments i users =
     (case find (\<lambda>u. id' u = i) users of
        None \<Rightarrow> Inr ([], users)
      | Some old \<Rightarrow>
          (case assign_all now vals old assignments old of
             None \<Rightarrow> Inl QueryError
           | Some new \<Rightarrow>
               if list_ex (\<lambda>u. id' u \<noteq> i \<and> user_response.email u = user_response.email new) users
               then Inl QueryError
               else Inr ([new\<lparr>updated_at := now\<rparr>],
                         map (\<lambda>u. if id' u = i then new\<lparr>updated_at := now\<rparr> else u) users)))"

definition pg_update ::
  "date \<Rightarrow> string \<Rightarrow> jsvalue list \<Rightarrow> user list \<Rightarrow> error + (user list \<times> user list)" where
  "pg_update now query vals users =
     (case tokens query [] of
        t1 # t2 # t3 # rest \<Rightarrow>
          if t1 = ''UPDATE'' \<and> t2 = ''users'' \<and> t3 = ''SET''
          then
            (case parse_set rest [] of
               None \<Rightarrow> Inl QueryError
             | Some (assignments, cond) \<Rightarrow>
                 (case cond of
                    [w1, w2, p, w3, w4] \<Rightarrow>
                      if w1 = ''id'' \<and> w2 = ''='' \<and> w3 = ''RETURNING'' \<and> w4 = ''*''
                         \<and> distinct (map fst assignments)
                      then
                        (case param_index p of
                           None \<Rightarrow> Inl QueryError
                         | Some n \<Rightarrow>
                             if 1 \<le> n \<and> n \<le> length vals
                             then (case vals ! (n - 1) of
                                     Str i \<Rightarrow> run_update now vals assignments i users
                                   | _ \<Rightarrow> Inl QueryError)
                             else Inl QueryError)
                      else Inl QueryError
                  | _ \<Rightarrow> Inl QueryError))
          else Inl QueryError
      | _ \<Rightarrow> Inl QueryError)"

text \<open>
  The body \<open>{"first_name = password_hash, phone": "555-0100"}\<close> of a request to
  \<open>PUT /api/users/profile\<close>.
\<close>

definition leak_body :: "(string \<times> jsvalue) list" where
  "leak_body = [(''first_name = password_hash, phone'', Str ''555-0100'')]"

section \<open>Communication patterns (COMMUNICATION_PATTERNS.md)\<close>

subsection \<open>Retry strategy\<close>

text \<open>
  \<open>retryWithBackoff(fn, maxRetries = 3)\<close>. \<open>fn i\<close> is what the call of \<open>fn\<close> in iteration
  \<open>i\<close> does: it throws (\<open>Inl\<close>) or returns (\<open>Inr\<close>). The result is the caller's view (a
  value of \<open>fn\<close>, the error thrown, or \<open>undefined\<close> when the loop ends without either)
  and the delays slept, in milliseconds.
\<close>

datatype ('e, 'a) outcome = Returned 'a | Thrown 'e | ReturnedUndefined

text \<open>\<open>Math.min(1000 * Math.pow(2, i), 10000)\<close>.\<close>

definition delay :: "nat \<Rightarrow> nat" where
  "delay i = min (1000 * 2 ^ i) 10000"

function retry_loop ::
  "(nat \<Rightarrow> 'e + 'a) \<Rightarrow> int \<Rightarrow> nat \<Rightarrow> nat list \<Rightarrow> ('e, 'a) outcome \<times> nat list" where
  "retry_loop fn maxRetries i slept =
     (if int i < maxRetries then
        (case fn i of
           Inr v \<Rightarrow> (Returned v, slept)
         | Inl err \<Rightarrow>
             if int i = maxRetries - 1 then (Thrown err, slept)
             else retry_loop fn maxRetries (i + 1) (slept @ [delay i]))
      else (ReturnedUndefined, slept))"
  by pat_completeness auto
termination
  by (relation "measure (\<lambda>(fn, maxRetries, i, slept). nat (maxRetries - int i))") auto

definition retryWithBackoff ::
  "(nat \<Rightarrow> 'e + 'a) \<Rightarrow> int option \<Rightarrow> ('e, 'a) outcome \<times> nat list" where
  "retryWithBackoff fn maxRetries =
     retry_loop fn (case maxRetries of None \<Rightarrow> 3 | Some n \<Rightarrow> n) 0 []"

subsection \<open>Events\<close>

text \<open>
  The payload of an event, with the fields the handlers read and write; a field that a
  payload does not have is \<open>None\<close>. Amounts are in cents.
\<close>

record item =
  product_id :: string
  quantity :: nat
  price :: nat

record event_data =
  order_id :: string
  payment_id :: "string option"
  reason :: "string option"
  total :: "nat option"
  currency :: "string option"
  items :: "item list option"

text \<open>
  What a handler publishes is \<open>{ event_type, data }\<close>; an event as delivered has the
  other fields of the event schema standard as well. A handler reads the fields of
  the payload that it names, so it takes a payload with any further fields.
\<close>

record 'd message =
  event_type :: string
  data :: 'd

record 'd event = "'d message" +
  event_id :: string
  event_version :: string
  timestamp :: string
  source_service :: string
  correlation_id :: string

text \<open>The payload \<open>{ order_id }\<close>.\<close>

definition order_only :: "string \<Rightarrow> event_data" where
  "order_only oid =
     \<lparr> order_id = oid, payment_id = None, reason = None, total = None, currency = None,
       items = None \<rparr>"

subsection \<open>Saga pattern (choreography)\<close>

text \<open>
  The three services keep their own data (\<open>orders\<close>, \<open>inventory\<close>, \<open>payments\<close>) and
  share the event bus; \<open>published\<close> is what has been published, oldest first. The
  methods the handlers call on their own service (\<open>updateOrderStatus\<close>,
  \<open>processPayment\<close>, \<open>reserveInventory\<close>, \<open>releaseInventory\<close>) are not part of the
  document: a handler takes them as arguments, each a function of the service's data
  that throws or returns and leaves the data changed. A handler that does not catch
  passes on whatever error its method throws. \<open>eventBus.publish\<close> appends.
\<close>

record ('o, 'i, 'p) world =
  orders :: 'o
  inventory :: 'i
  payments :: 'p
  published :: "event_data message list"

definition publish :: "event_data message \<Rightarrow> ('o, 'i, 'p) world \<Rightarrow> ('o, 'i, 'p) world" where
  "publish m w = w\<lparr>published := published w @ [m]\<rparr>"

definition onPaymentSuccess ::
  "(string \<Rightarrow> string \<Rightarrow> 'o \<Rightarrow> ('e + unit) \<times> 'o) \<Rightarrow> ('x event_data_scheme, 'm) message_scheme
     \<Rightarrow> ('o, 'i, 'p) world \<Rightarrow> ('e + unit) \<times> ('o, 'i, 'p) world" where
  "onPaymentSuccess updateOrderStatus ev w =
     (let oid = order_id (data ev)
      in case updateOrderStatus oid ''confirmed'' (orders w) of
           (Inl err, os) \<Rightarrow> (Inl err, w\<lparr>orders := os\<rparr>)
         | (Inr _, os) \<Rightarrow>
             (Inr (), publish \<lparr> event_type = ''order.confirmed'', data = order_only oid \<rparr>
                        (w\<lparr>orders := os\<rparr>)))"

definition onPaymentFailed ::
  "(string \<Rightarrow> string \<Rightarrow> 'o \<Rightarrow> ('e + unit) \<times> 'o) \<Rightarrow> ('x event_data_scheme, 'm) message_scheme
     \<Rightarrow> ('o, 'i, 'p) world \<Rightarrow> ('e + unit) \<times> ('o, 'i, 'p) world" where
  "onPaymentFailed updateOrderStatus ev w =
     (let oid = order_id (data ev)
      in case updateOrderStatus oid ''failed'' (orders w) of
           (Inl err, os) \<Rightarrow> (Inl err, w\<lparr>orders := os\<rparr>)
         | (Inr _, os) \<Rightarrow>
             (Inr (), publish \<lparr> event_type = ''order.failed'', data = order_only oid \<rparr>
                        (w\<lparr>orders := os\<rparr>)))"

text \<open>
  \<open>PaymentService.onOrderCreated\<close>: \<open>processPayment(total, currency)\<close> returns the
  payment, of which the handler reads the id, or throws; the \<open>catch\<close> publishes
  \<open>payment.failed\<close> and the handler returns.
\<close>

definition payment_onOrderCreated ::
  "(nat option \<Rightarrow> string option \<Rightarrow> 'p \<Rightarrow> (error + string) \<times> 'p) \<Rightarrow> ('x event_data_scheme, 'm) message_scheme
     \<Rightarrow> ('o, 'i, 'p) world \<Rightarrow> (error + unit) \<times> ('o, 'i, 'p) world" where
  "payment_onOrderCreated processPayment ev w =
     (let oid = order_id (data ev)
      in case processPayment (total (data ev)) (currency (data ev)) (payments w) of
           (Inr pay_id, ps) \<Rightarrow>
             (Inr (), publish \<lparr> event_type = ''payment.success'',
                                 data = (order_only oid)\<lparr>payment_id := Some pay_id\<rparr> \<rparr>
                        (w\<lparr>payments := ps\<rparr>))
         | (Inl err, ps) \<Rightarrow>
             (Inr (), publish \<lparr> event_type = ''payment.failed'',
                                 data = (order_only oid)\<lparr>reason := Some (message err)\<rparr> \<rparr>
                        (w\<lparr>payments := ps\<rparr>)))"

definition inventory_onOrderCreated ::
  "(string \<Rightarrow> item list option \<Rightarrow> 'i \<Rightarrow> (error + unit) \<times> 'i) \<Rightarrow> ('x event_data_scheme, 'm) message_scheme
     \<Rightarrow> ('o, 'i, 'p) world \<Rightarrow> (error + unit) \<times> ('o, 'i, 'p) world" where
  "inventory_onOrderCreated reserveInventory ev w =
     (let oid = order_id (data ev)
      in case reserveInventory oid (items (data ev)) (inventory w) of
           (Inr _, iv) \<Rightarrow>
             (Inr (), publish \<lparr> event_type = ''inventory.reserved'', data = order_only oid \<rparr>
                        (w\<lparr>inventory := iv\<rparr>))
         | (Inl err, iv) \<Rightarrow>
             (Inr (), publish \<lparr> event_type = ''inventory.reservation.failed'',
                                 data = (order_only oid)\<lparr>reason := Some (message err)\<rparr> \<rparr>
                        (w\<lparr>inventory := iv\<rparr>)))"

definition onOrderFailed ::
  "(string \<Rightarrow> 'i \<Rightarrow> ('e + unit) \<times> 'i) \<Rightarrow> ('x event_data_scheme, 'm) message_scheme
     \<Rightarrow> ('o, 'i, 'p) world \<Rightarrow> ('e + unit) \<times> ('o, 'i, 'p) world" where
  "onOrderFailed releaseInventory ev w =
     (let oid = order_id (data ev)
      in case releaseInventory oid (inventory w) of
           (Inl err, iv) \<Rightarrow> (Inl err, w\<lparr>inventory := iv\<rparr>)
         | (Inr _, iv) \<Rightarrow>
             (Inr (), publish \<lparr> event_type = ''inventory.released'', data = order_only oid \<rparr>
                        (w\<lparr>inventory := iv\<rparr>)))"

subsection \<open>Idempotency key pattern\<close>

text \<open>
  The table \<open>payments\<close> of DATABASE_SCHEMAS.md, amounts in cents, JSONB as text.
\<close>

record payment =
  id' :: string
  transaction_id :: string
  order_id :: string
  user_id :: string
  payment_method :: string
  provider :: string
  provider_transaction_id :: "string option"
  amount :: nat
  currency :: string
  status :: string
  failure_reason :: "string option"
  idempotency_key :: "string option"
  metadata :: "string option"
  created_at :: date
  updated_at :: date
  completed_at :: "date option"

text \<open>
  \<open>this.db\<close> and \<open>performPayment\<close> are not part of the document. \<open>this.db\<close> is taken
  to be the payments table, a list of rows: \<open>findByIdempotencyKey\<close> gives the first
  row with the key or \<open>null\<close>; \<open>save\<close> inserts a row, and fails when the table has a
  row with its id, its transaction id or its idempotency key (\<open>PRIMARY KEY\<close>,
  \<open>UNIQUE\<close>). \<open>performPayment\<close> is an argument: it throws or returns a payment, and
  acts on \<open>gateway\<close>, the provider's side.
\<close>

record 'g payment_service =
  db :: "payment list"
  gateway :: 'g

definition findByIdempotencyKey :: "payment list \<Rightarrow> string \<Rightarrow> payment option" where
  "findByIdempotencyKey rows k = find (\<lambda>p. idempotency_key p = Some k) rows"

definition save :: "payment list \<Rightarrow> payment \<Rightarrow> error + payment list" where
  "save rows p =
     (if list_ex (\<lambda>q. payment.id' q = payment.id' p
                      \<or> transaction_id q = transaction_id p
                      \<or> (idempotency_key p \<noteq> None \<and> idempotency_key q = idempotency_key p)) rows
      then Inl QueryError
      else Inr (rows @ [p]))"

definition processPayment ::
  "('d \<Rightarrow> 'g \<Rightarrow> (error + payment) \<times> 'g) \<Rightarrow> 'd \<Rightarrow> string \<Rightarrow> 'g payment_service
     \<Rightarrow> (error + payment) \<times> 'g payment_service" where
  "processPayment performPayment paymentData idempotencyKey svc =
     (case findByIdempotencyKey (db svc) idempotencyKey of
        Some existingPayment \<Rightarrow> (Inr existingPayment, svc)
      | None \<Rightarrow>
          (case performPayment paymentData (gateway svc) of
             (Inl err, g) \<Rightarrow> (Inl err, svc\<lparr>gateway := g\<rparr>)
           | (Inr p, g) \<Rightarrow>
               (let p' = p\<lparr>idempotency_key := Some idempotencyKey\<rparr>
                in case save (db svc) p' of
                     Inl err \<Rightarrow> (Inl err, svc\<lparr>gateway := g\<rparr>)
                   | Inr rows \<Rightarrow> (Inr p', \<lparr> db = rows, gateway = g \<rparr>))))"

text \<open>
  A sequence of payment commands, each \<open>(paymentData, idempotencyKey)\<close>, run one after
  the other; a command that throws leaves the service as the throw left it.
\<close>

fun run_payments ::
  "('d \<Rightarrow> 'g \<Rightarrow> (error + payment) \<times> 'g) \<Rightarrow> ('d \<times> string) list \<Rightarrow> 'g payment_service
     \<Rightarrow> 'g payment_service" where
  "run_payments performPayment [] svc = svc"
| "run_payments performPayment ((d, k) # cmds) svc =
     run_payments performPayment cmds (snd (processPayment performPayment d k svc))"

text \<open>The idempotency keys of the rows that have one, in table order.\<close>

definition stored_keys :: "payment list \<Rightarrow> string list" where
  "stored_keys rows = List.map_filter idempotency_key rows"

definition succeeded_for :: "string \<Rightarrow> payment list \<Rightarrow> payment list" where
  "succeeded_for k rows =
     filter (\<lambda>p. idempotency_key p = Some k \<and> payment.status p = ''success'') rows"

subsection \<open>Event deduplication\<close>

text \<open>
  An \<open>EventConsumer\<close>: its set \<open>processedEvents\<close>, the Redis keys it writes (key to
  time to live and value), and \<open>effects\<close>, the state \<open>processEvent\<close> acts on (the
  consumer's data and what it has sent). \<open>processEvent\<close> is not part of the document:
  it throws or returns, and leaves \<open>effects\<close> changed. What \<open>console.log\<close> prints is not
  modelled.
\<close>

record 's event_consumer =
  processedEvents :: "string set"
  redis :: "string \<rightharpoonup> nat \<times> string"
  effects :: 's

definition handleEvent ::
  "('d event \<Rightarrow> 's \<Rightarrow> (error + unit) \<times> 's) \<Rightarrow> 'd event \<Rightarrow> 's event_consumer
     \<Rightarrow> (error + unit) \<times> 's event_consumer" where
  "handleEvent processEvent ev c =
     (if event_id ev \<in> processedEvents c then (Inr (), c)
      else
        (case processEvent ev (effects c) of
           (Inl err, s) \<Rightarrow> (Inl err, c\<lparr>effects := s\<rparr>)
         | (Inr _, s) \<Rightarrow>
             (Inr (),
              c\<lparr> effects := s,
                 processedEvents := insert (event_id ev) (processedEvents c),
                 redis := (redis c)(''processed:'' @ event_id ev \<mapsto> (86400, ''true'')) \<rparr>)))"

section \<open>Order database (DATABASE_SCHEMAS.md)\<close>

text \<open>
  The table \<open>orders\<close>, a map from the id to the other columns; amounts in cents, JSONB
  as text. The column \<open>notes\<close> is written \<open>notes'\<close>.
\<close>

record order =
  order_number :: string
  user_id :: string
  status :: string
  currency :: string
  subtotal :: nat
  discount :: nat
  tax :: nat
  shipping_cost :: nat
  total :: nat
  payment_status :: string
  payment_id :: "string option"
  shipping_address :: string
  billing_address :: string
  notes' :: "string option"
  created_at :: date
  updated_at :: date
  confirmed_at :: "date option"
  shipped_at :: "date option"
  delivered_at :: "date option"
  cancelled_at :: "date option"

text \<open>
  \<open>updateOrderStatus(order_id, status)\<close>, which the document calls and does not
  give, taken as the statement \<open>UPDATE orders SET status = $2 WHERE id = $1\<close>: it
  changes the status of the row with the id, and nothing when there is none.
\<close>

definition set_status ::
  "string \<Rightarrow> string \<Rightarrow> (string \<rightharpoonup> order) \<Rightarrow> (error + unit) \<times> (string \<rightharpoonup> order)" where
  "set_status oid s os =
     (case os oid of
        None \<Rightarrow> (Inr (), os)
      | Some ord \<Rightarrow> (Inr (), os(oid \<mapsto> ord\<lparr>order.status := s\<rparr>)))"

section \<open>Inventory reservation manager\<close>

text \<open>
  Modelled from the spec: the operations \<open>reserve\<close>, \<open>finalize\<close> and \<open>release\<close> of the
  inventory service. The document shows their callers only
  (\<open>InventoryService.onOrderCreated\<close> calls \<open>reserveInventory\<close>, \<open>onOrderFailed\<close> calls
  \<open>releaseInventory\<close>) and the tables \<open>inventory\<close> and \<open>inventory_reservations\<close>. The
  definitions follow sections 3, 4.3 and 5 of the specification.

  A stock-keeping unit is a product in a warehouse; its row of \<open>inventory\<close> has the
  counters \<open>quantity_available\<close> and \<open>quantity_reserved\<close>, and a unit without a row
  has both at 0. A reservation belongs to one order: its tuples (unit and quantity),
  its status and its absolute expiry. Times are in seconds.
\<close>

type_synonym sku = "string \<times> string"

record stock_level =
  quantity_available :: int
  quantity_reserved :: int

datatype reservation_status = active | released | fulfilled

record reservation =
  tuples :: "(sku \<times> nat) list"
  status :: reservation_status
  expires_at :: nat

record inventory_db =
  stock :: "sku \<Rightarrow> stock_level"
  reservations :: "string \<rightharpoonup> reservation"

datatype inventory_error = InsufficientStock | ReservationExpired

text \<open>
  Modelled from the spec: \<open>reserve(orderId, items, ttl)\<close>. Each tuple is an atomic
  conditional update of its unit (section 5): it takes the quantity from
  \<open>quantity_available\<close> into \<open>quantity_reserved\<close> if that much is available. The
  request is all or nothing (section 4.3): when a tuple cannot be satisfied nothing
  is changed and the result is \<open>InsufficientStock\<close>; otherwise one reservation is
  created for the order, active, with \<open>expiry = now + ttl\<close>, and the default \<open>ttl\<close> is
  15 minutes.
\<close>

definition reserve_one :: "sku \<Rightarrow> nat \<Rightarrow> (sku \<Rightarrow> stock_level) \<Rightarrow> (sku \<Rightarrow> stock_level) option" where
  "reserve_one u q st =
     (if int q \<le> quantity_available (st u)
      then Some (st(u := \<lparr> quantity_available = quantity_available (st u) - int q,
                           quantity_reserved = quantity_reserved (st u) + int q \<rparr>))
      else None)"

fun reserve_all :: "(sku \<times> nat) list \<Rightarrow> (sku \<Rightarrow> stock_level) \<Rightarrow> (sku \<Rightarrow> stock_level) option" where
  "reserve_all [] st = Some st"
| "reserve_all ((u, q) # rest) st =
     (case reserve_one u q st of None \<Rightarrow> None | Some st' \<Rightarrow> reserve_all rest st')"

definition default_ttl :: nat where
  "default_ttl = 15 * 60"

definition reserve ::
  "nat \<Rightarrow> string \<Rightarrow> (sku \<times> nat) list \<Rightarrow> nat option \<Rightarrow> inventory_db
     \<Rightarrow> (inventory_error + reservation) \<times> inventory_db" where
  "reserve now orderId its ttl iv =
     (case reserve_all its (stock iv) of
        None \<Rightarrow> (Inl InsufficientStock, iv)
      | Some st' \<Rightarrow>
          (let r = \<lparr> tuples = its, status = active,
                      expires_at = now + (case ttl of None \<Rightarrow> default_ttl | Some t \<Rightarrow> t) \<rparr>
           in (Inr r, \<lparr> stock = st', reservations = (reservations iv)(orderId \<mapsto> r) \<rparr>)))"

text \<open>
  The quantity a request asks of a unit: the sum over its tuples for that unit.
\<close>

fun requested :: "(sku \<times> nat) list \<Rightarrow> sku \<Rightarrow> nat" where
  "requested [] u = 0"
| "requested ((u', q) # rest) u = (if u' = u then q else 0) + requested rest u"

text \<open>
  Modelled from the spec: \<open>release(orderId)\<close> returns the reserved quantity of an
  active reservation to the available stock and marks it released; on a reservation
  that is not active, or when the order has none, it is a no-op and not an error.
\<close>

fun return_all :: "(sku \<times> nat) list \<Rightarrow> (sku \<Rightarrow> stock_level) \<Rightarrow> (sku \<Rightarrow> stock_level)" where
  "return_all [] st = st"
| "return_all ((u, q) # rest) st =
     return_all rest
       (st(u := \<lparr> quantity_available = quantity_available (st u) + int q,
                   quantity_reserved = quantity_reserved (st u) - int q \<rparr>))"

definition release :: "string \<Rightarrow> inventory_db \<Rightarrow> (inventory_error + unit) \<times> inventory_db" where
  "release orderId iv =
     (case reservations iv orderId of
        None \<Rightarrow> (Inr (), iv)
      | Some r \<Rightarrow>
          if reservation.status r = active
          then (Inr (), \<lparr> stock = return_all (tuples r) (stock iv),
                          reservations = (reservations iv)(orderId \<mapsto> r\<lparr>reservation.status := released\<rparr>) \<rparr>)
          else (Inr (), iv))"

text \<open>
  Modelled from the spec: \<open>finalize(orderId)\<close> turns an active reservation that has not
  expired into a permanent decrement (the quantity leaves \<open>quantity_reserved\<close>) and
  marks it fulfilled; called after the expiry it fails with \<open>ReservationExpired\<close>; on
  a fulfilled reservation it is a no-op. The specification names no other failure of
  \<open>finalize\<close>, so an order whose reservation has been released, or that has none, is
  answered with \<open>ReservationExpired\<close> as well.
\<close>

fun commit_all :: "(sku \<times> nat) list \<Rightarrow> (sku \<Rightarrow> stock_level) \<Rightarrow> (sku \<Rightarrow> stock_level)" where
  "commit_all [] st = st"
| "commit_all ((u, q) # rest) st =
     commit_all rest (st(u := (st u)\<lparr> quantity_reserved := quantity_reserved (st u) - int q \<rparr>))"

definition finalize ::
  "nat \<Rightarrow> string \<Rightarrow> inventory_db \<Rightarrow> (inventory_error + unit) \<times> inventory_db" where
  "finalize now orderId iv =
     (case reservations iv orderId of
        None \<Rightarrow> (Inl ReservationExpired, iv)
      | Some r \<Rightarrow>
          (case reservation.status r of
             fulfilled \<Rightarrow> (Inr (), iv)
           | released \<Rightarrow> (Inl ReservationExpired, iv)
           | active \<Rightarrow>
               if expires_at r < now then (Inl ReservationExpired, iv)
               else (Inr (), \<lparr> stock = commit_all (tuples r) (stock iv),
                               reservations = (reservations iv)(orderId \<mapsto> r\<lparr>reservation.status := fulfilled\<rparr>) \<rparr>)))"

section \<open>Order cancellation\<close>

text \<open>
  Modelled from the spec: the handling of the command \<open>CancelOrder{orderId, reason}\<close>.
  The document has the business rules of the cancellation flow (DATA_FLOWS.md) and no
  code for it. Following section 4.4 of the specification, a cancellation is accepted
  while the status is pending, \<open>inventory_reserved\<close> or confirmed: the order becomes
  cancelled and \<open>order.cancelled\<close> is published. In the status shipped or delivered
  it is rejected with the flag that routes to the return sub-flow, in any other status
  it is rejected without the flag; a rejected cancellation changes nothing.
\<close>

datatype cancel_result = CancelAccepted | CancelRejected (return_flow: bool) | OrderNotFound

definition cancelOrder ::
  "string \<Rightarrow> string \<Rightarrow> (string \<rightharpoonup> order, 'i, 'p) world
     \<Rightarrow> cancel_result \<times> (string \<rightharpoonup> order, 'i, 'p) world" where
  "cancelOrder orderId why w =
     (case orders w orderId of
        None \<Rightarrow> (OrderNotFound, w)
      | Some ord \<Rightarrow>
          if order.status ord \<in> set [''pending'', ''inventory_reserved'', ''confirmed'']
          then (CancelAccepted,
                publish \<lparr> event_type = ''order.cancelled'',
                          data = (order_only orderId)\<lparr>reason := Some why\<rparr> \<rparr>
                  (w\<lparr>orders := (orders w)(orderId \<mapsto> ord\<lparr>order.status := ''cancelled''\<rparr>)\<rparr>))
          else if order.status ord \<in> set [''shipped'', ''delivered'']
          then (CancelRejected True, w)
          else (CancelRejected False, w))"

section \<open>Sample data for the saga\<close>

definition boom :: "nat \<Rightarrow> string + nat" where
  "boom i = Inl ''boom''"

definition flaky :: "nat \<Rightarrow> string + nat" where
  "flaky i = (if i < 2 then Inl ''boom'' else Inr i)"

text \<open>
  A provider that declines the amount 0 and otherwise charges: its ledger is the list
  of the amounts charged.
\<close>

definition charge :: "nat \<Rightarrow> nat list \<Rightarrow> (error + payment) \<times> nat list" where
  "charge amt ledger =
     (if amt = 0 then (Inl (Error ''declined''), ledger)
      else
        (Inr \<lparr> id' = ''pay-'' @ replicate (length ledger) CHR ''i'',
               transaction_id = ''txn-'' @ replicate (length ledger) CHR ''i'',
               order_id = ''O1'', user_id = ''u1'', payment_method = ''credit_card'',
               provider = ''stripe'', provider_transaction_id = None, amount = amt,
               payment.currency = ''USD'', payment.status = ''success'', failure_reason = None,
               idempotency_key = None, metadata = None, payment.created_at = 0,
               payment.updated_at = 0, completed_at = None \<rparr>,
         ledger @ [amt]))"

definition svc0 :: "nat list payment_service" where
  "svc0 = \<lparr> db = [], gateway = [] \<rparr>"

text \<open>A consumer that counts how often it has processed an event.\<close>

definition count_event :: "event_data event \<Rightarrow> nat \<Rightarrow> (error + unit) \<times> nat" where
  "count_event ev n = (Inr (), n + 1)"

definition consumer0 :: "nat event_consumer" where
  "consumer0 = \<lparr> processedEvents = {}, redis = Map.empty, effects = 0 \<rparr>"

definition payment_failed_O5 :: "event_data event" where
  "payment_failed_O5 =
     \<lparr> event_type = ''payment.failed'',
       data = \<lparr> event_data.order_id = ''O5'', event_data.payment_id = None,
                reason = Some ''card declined'', event_data.total = None,
                event_data.currency = None, items = None \<rparr>,
       event_id = ''e-17'', event_version = ''1.0'', timestamp = ''2024-01-15T10:30:05Z'',
       source_service = ''payment-service'', correlation_id = ''c-5'' \<rparr>"

definition payment_success_O5 :: "event_data event" where
  "payment_success_O5 =
     \<lparr> event_type = ''payment.success'',
       data = \<lparr> event_data.order_id = ''O5'', event_data.payment_id = Some ''pay-1'',
                reason = None, event_data.total = None, event_data.currency = None,
                items = None \<rparr>,
       event_id = ''e-16'', event_version = ''1.0'', timestamp = ''2024-01-15T10:30:04Z'',
       source_service = ''payment-service'', correlation_id = ''c-5'' \<rparr>"

text \<open>
  A \<open>payment.failed\<close> request for O5 whose payload also carries the version of the
  order that its sender has read.
\<close>

record versioned_data = event_data +
  version :: nat

definition stale_payment_failed_O5 :: "versioned_data message" where
  "stale_payment_failed_O5 =
     \<lparr> event_type = ''payment.failed'',
       data = \<lparr> event_data.order_id = ''O5'', event_data.payment_id = None,
                reason = Some ''card declined'', event_data.total = None,
                event_data.currency = None, items = None, version = 0 \<rparr> \<rparr>"

definition order_O5 :: order where
  "order_O5 =
     \<lparr> order_number = ''ORD-2024-00005'', order.user_id = ''u1'', order.status = ''pending'',
       order.currency = ''USD'', subtotal = 5998, discount = 0, tax = 0, shipping_cost = 0,
       order.total = 5998, payment_status = ''pending'', order.payment_id = None,
       shipping_address = ''123 Main St'', billing_address = ''123 Main St'', notes' = None,
       order.created_at = 1, order.updated_at = 1, confirmed_at = None, shipped_at = None,
       delivered_at = None, cancelled_at = None \<rparr>"

definition sku_A :: sku where
  "sku_A = (''SKU-A'', ''WH-1'')"

definition sku_B :: sku where
  "sku_B = (''SKU-B'', ''WH-1'')"

definition stock0 :: "sku \<Rightarrow> stock_level" where
  "stock0 = (\<lambda>u. \<lparr> quantity_available = 0, quantity_reserved = 0 \<rparr>)
              (sku_A := \<lparr> quantity_available = 5, quantity_reserved = 0 \<rparr>,
               sku_B := \<lparr> quantity_available = 1, quantity_reserved = 0 \<rparr>)"

definition inventory0 :: inventory_db where
  "inventory0 = \<lparr> stock = stock0, reservations = Map.empty \<rparr>"

text \<open>
  The order O5 is pending, two units of SKU-A are reserved for it, and no payment is
  stored.
\<close>

definition world0 :: "(string \<rightharpoonup> order, inventory_db, payment list) world" where
  "world0 =
     \<lparr> orders = [''O5'' \<mapsto> order_O5],
       inventory = snd (reserve 100 ''O5'' [(sku_A, 2)] None inventory0),
       payments = [],
       published = [] \<rparr>"

section \<open>Properties of the user service\<close>

lemma toUserResponse_hash: "toUserResponse (u\<lparr>password_hash := h\<rparr>) = toUserResponse u"
  by (simp add: toUserResponse_def)

lemma find_rehash:
  assumes "\<And>u h. P (u\<lparr>password_hash := h\<rparr>) = P u"
  shows "find P (rehash g users) = map_option (\<lambda>u. u\<lparr>password_hash := g u\<rparr>) (find P users)"
  using assms by (induction users) (simp_all add: rehash_def)

lemma list_ex_rehash:
  assumes "\<And>u h. P (u\<lparr>password_hash := h\<rparr>) = P u"
  shows "list_ex P (rehash g users) = list_ex P users"
  using assms by (induction users) (simp_all add: rehash_def)

lemma findById_rehash:
  "findById (rehash g users) i = map_option (\<lambda>u. u\<lparr>password_hash := g u\<rparr>) (findById users i)"
  unfolding findById_def by (rule find_rehash) simp

lemma findByEmail_rehash:
  "findByEmail (rehash g users) e = map_option (\<lambda>u. u\<lparr>password_hash := g u\<rparr>) (findByEmail users e)"
  unfolding findByEmail_def by (rule find_rehash) simp

lemma getProfile_rehash: "fst (getProfile i (rehash g users)) = fst (getProfile i users)"
  by (simp add: getProfile_def findById_rehash toUserResponse_hash split: option.splits)

lemma login_rehash:
  assumes "login env d (rehash g users) = (Inr r1, t1)" and "login env d users = (Inr r2, t2)"
  shows "r1 = r2"
  using assms
  by (auto simp: login_def findByEmail_rehash toUserResponse_hash
           split: sum.splits option.splits if_splits)

lemma register_rehash:
  "fst (register env d (rehash g users)) = fst (register (env\<lparr>hashPassword := hp\<rparr>) d users)"
  by (simp add: register_def findByEmail_rehash create_def toUserResponse_def list_ex_rehash
        Let_def split: sum.splits option.splits)

text \<open>
  C10 fails in \<open>updateProfile\<close>. The controller passes the request body unchecked and
  \<open>update\<close> writes its keys into the statement. For the body
  \<open>{"first_name = password_hash, phone": "555-0100"}\<close> and the user alice the statement
  is \<open>UPDATE users SET first_name = password_hash, phone = $1, updated_at =
  CURRENT_TIMESTAMP WHERE id = $2 RETURNING *\<close>: the row returned has the stored
  password hash as its first name, and \<open>toUserResponse\<close> copies it into the response.
  Over two tables that differ only in the stored hash of alice the responses differ.
\<close>

theorem updateProfile_leaks_password_hash:
  "update_query (fst (entries_loop leak_body [] [] 1) @ [''updated_at = CURRENT_TIMESTAMP'']) 2
     = ''\<newline>      UPDATE users \<newline>      SET first_name = password_hash, phone = $1, updated_at = CURRENT_TIMESTAMP\<newline>      WHERE id = $2\<newline>      RETURNING *\<newline>    ''
   \<and> password_hash alice = ''s1wonderland''
   \<and> fst (updateProfile (pg_update 100) (user_response.id' alice) leak_body users0)
     = Inr ((toUserResponse alice)\<lparr> user_response.first_name := Some ''s1wonderland'',
                                     user_response.phone := Some ''555-0100'' \<rparr>)
   \<and> fst (updateProfile (pg_update 100) (user_response.id' alice) leak_body
            (rehash (\<lambda>u. ''s2'' @ drop 2 (password_hash u)) users0))
     = Inr ((toUserResponse alice)\<lparr> user_response.first_name := Some ''s2wonderland'',
                                     user_response.phone := Some ''555-0100'' \<rparr>)"
  by (simp add: updateProfile_def update_def leak_body_def update_query_def digit_def
        pg_update_def param_index_def run_update_def assign_def expression_def text_column_def
        users0_def alice_def bob_def findById_def toUserResponse_def rehash_def)

text \<open>
  X5. A \<open>UserResponse\<close> has the eight fields id, email, first_name, last_name, phone,
  role, is_email_verified and created_at and no other (the record \<open>user_response\<close>).
  \<open>toUserResponse\<close> gives the same value for two users that differ only in
  \<open>password_hash\<close>; over two tables that differ only in the stored hashes \<open>getProfile\<close>
  gives the same result, \<open>register\<close> gives the same result whatever hash it computes
  for the new password, and two successful logins with the same request return the
  same response.
\<close>

theorem responses_independent_of_stored_hash:
  "toUserResponse (u\<lparr>password_hash := h\<rparr>) = toUserResponse u
   \<and> fst (getProfile i (rehash g users)) = fst (getProfile i users)
   \<and> fst (register env rd (rehash g users)) = fst (register (env\<lparr>hashPassword := hp\<rparr>) rd users)
   \<and> (\<forall>r1 t1 r2 t2. login env ld (rehash g users) = (Inr r1, t1) \<and> login env ld users = (Inr r2, t2)
         \<longrightarrow> r1 = r2)"
proof -
  have "\<forall>r1 t1 r2 t2. login env ld (rehash g users) = (Inr r1, t1) \<and> login env ld users = (Inr r2, t2)
         \<longrightarrow> r1 = r2"
    using login_rehash by blast
  then show ?thesis
    using toUserResponse_hash getProfile_rehash register_rehash by blast
qed

theorem responses_independent_of_stored_hash_witness:
  "fst (login env0 \<lparr>login_request.email = ''alice@example.com'', login_request.password = ''wonderland''\<rparr>
          (rehash (\<lambda>u. ''s2'' @ drop 2 (password_hash u)) users0))
   = fst (login env0 \<lparr>login_request.email = ''alice@example.com'', login_request.password = ''wonderland''\<rparr> users0)
   \<and> fst (login env0 \<lparr>login_request.email = ''alice@example.com'', login_request.password = ''wonderland''\<rparr> users0)
   = Inr \<lparr> user = toUserResponse alice, token = ''550e8400-e29b-41d4-a716-446655440003.alice@example.com.customer'',
           refreshToken = ''550e8400-e29b-41d4-a716-446655440003'' \<rparr>
   \<and> rehash (\<lambda>u. ''s2'' @ drop 2 (password_hash u)) users0 \<noteq> users0"
  using responses_independent_of_stored_hash [where g = "\<lambda>u. ''s2'' @ drop 2 (password_hash u)"
      and users = users0 and env = env0
      and ld = "\<lparr>login_request.email = ''alice@example.com'', login_request.password = ''wonderland''\<rparr>"]
  by (simp add: login_def validate_def env0_def users0_def alice_def bob_def findByEmail_def toUserResponse_def updateLastLogin_def rehash_def)

text \<open>
  C9 as stated fails: \<open>login\<close> checks \<open>is_active\<close> before it compares the password,
  so for the registered but deactivated account of bob a wrong password gives
  \<open>Account is deactivated\<close>, while an unregistered email gives
  \<open>Invalid email or password\<close>.
\<close>

theorem login_deactivated_counterexample:
  "findByEmail users0 ''bob@example.com'' = Some bob
   \<and> \<not> comparePassword env0 ''wrong'' (password_hash bob)
   \<and> findByEmail users0 ''nobody@example.com'' = None
   \<and> login env0 \<lparr>login_request.email = ''nobody@example.com'', login_request.password = ''wrong''\<rparr> users0
       = (Inl (Error ''Invalid email or password''), users0)
   \<and> login env0 \<lparr>login_request.email = ''bob@example.com'', login_request.password = ''wrong''\<rparr> users0
       = (Inl (Error ''Account is deactivated''), users0)"
  by (simp add: login_def validate_def env0_def users0_def alice_def bob_def findByEmail_def)

text \<open>
  C9, amended. For two login requests that pass validation, one with an email of no
  registered user and one with the email of a registered, active user and a wrong
  password, \<open>login\<close> fails with the same message \<open>Invalid email or password\<close> and
  leaves the table as it was.
\<close>

theorem login_failure_indistinguishable:
  assumes "validate (loginSchema env) d1 = Inr v1"
    and "validate (loginSchema env) d2 = Inr v2"
    and "findByEmail users (login_request.email v1) = None"
    and "findByEmail users (login_request.email v2) = Some u"
    and "is_active u"
    and "\<not> comparePassword env (login_request.password v2) (password_hash u)"
  shows "login env d1 users = (Inl (Error ''Invalid email or password''), users)
       \<and> login env d2 users = (Inl (Error ''Invalid email or password''), users)"
  using assms by (simp add: login_def)

theorem login_failure_indistinguishable_witness:
  "login env0 \<lparr>login_request.email = ''nobody@example.com'', login_request.password = ''wonderland''\<rparr> users0
     = (Inl (Error ''Invalid email or password''), users0)
   \<and> login env0 \<lparr>login_request.email = ''alice@example.com'', login_request.password = ''builder''\<rparr> users0
     = (Inl (Error ''Invalid email or password''), users0)
   \<and> findByEmail users0 ''alice@example.com'' = Some alice"
  using login_failure_indistinguishable [of env0
      "\<lparr>login_request.email = ''nobody@example.com'', login_request.password = ''wonderland''\<rparr>"
      "\<lparr>login_request.email = ''nobody@example.com'', login_request.password = ''wonderland''\<rparr>"
      "\<lparr>login_request.email = ''alice@example.com'', login_request.password = ''builder''\<rparr>"
      "\<lparr>login_request.email = ''alice@example.com'', login_request.password = ''builder''\<rparr>"
      users0 alice]
  by (simp add: validate_def env0_def users0_def alice_def bob_def findByEmail_def)

text \<open>
  X2. \<open>register\<close> of a valid request whose email is already in the table fails with
  \<open>User with this email already exists\<close> and leaves the table unchanged.
\<close>

theorem register_duplicate_email:
  assumes "validate (registerSchema env) d = Inr v"
    and "findByEmail users (register_request.email v) = Some u"
  shows "register env d users = (Inl (Error ''User with this email already exists''), users)"
  using assms by (simp add: register_def)

theorem register_duplicate_email_witness:
  "register env0 \<lparr> register_request.email = ''alice@example.com'', register_request.password = ''12345678'',
                    register_request.first_name = None, register_request.last_name = None,
                    register_request.phone = None \<rparr> users0
     = (Inl (Error ''User with this email already exists''), users0)"
  using register_duplicate_email [of env0
      "\<lparr> register_request.email = ''alice@example.com'', register_request.password = ''12345678'',
         register_request.first_name = None, register_request.last_name = None,
         register_request.phone = None \<rparr>"
      "\<lparr> register_request.email = ''alice@example.com'', register_request.password = ''12345678'',
         register_request.first_name = None, register_request.last_name = None,
         register_request.phone = None \<rparr>" users0 alice]
  by (simp add: validate_def env0_def users0_def alice_def bob_def findByEmail_def)

lemma find_append_new: "find P xs = None \<Longrightarrow> P x \<Longrightarrow> find P (xs @ [x]) = Some x"
  by (induction xs) (auto split: if_splits)

text \<open>
  X3. A successful \<open>register\<close> appends one row to the table: it has the validated
  email, the hash of the validated password (not the password), the role customer, is
  active and not verified; the response is its \<open>UserResponse\<close>, and \<open>findByEmail\<close>
  finds it afterwards.
\<close>

theorem register_stores_hash:
  assumes "validate (registerSchema env) d = Inr v"
    and "register env d users = (Inr r, users')"
  shows "\<exists>row. users' = users @ [row]
           \<and> r = toUserResponse row
           \<and> user_response.email row = register_request.email v
           \<and> password_hash row = hashPassword env (register_request.password v)
           \<and> role row = ''customer'' \<and> is_active row \<and> \<not> is_email_verified row
           \<and> findByEmail users' (register_request.email v) = Some row"
  using assms
  by (auto simp: register_def create_def Let_def findByEmail_def find_append_new
           split: option.splits if_splits)

theorem register_stores_hash_witness:
  "(let res = register env0 \<lparr> register_request.email = ''carol@example.com'',
                                register_request.password = ''12345678'',
                                register_request.first_name = Some ''Carol'',
                                register_request.last_name = Some [],
                                register_request.phone = None \<rparr> users0
    in map_sum id user_response.email (fst res) = Inr ''carol@example.com''
       \<and> map password_hash (snd res) = [''s1wonderland'', ''s1builder'', ''s112345678'']
       \<and> map user_response.last_name (snd res) = [None, None, None])"
  using register_stores_hash [of env0
      "\<lparr> register_request.email = ''carol@example.com'', register_request.password = ''12345678'',
         register_request.first_name = Some ''Carol'', register_request.last_name = Some [],
         register_request.phone = None \<rparr>"
      "\<lparr> register_request.email = ''carol@example.com'', register_request.password = ''12345678'',
         register_request.first_name = Some ''Carol'', register_request.last_name = Some [],
         register_request.phone = None \<rparr>" users0]
  by (simp add: register_def validate_def env0_def users0_def alice_def bob_def findByEmail_def
        create_def or_null_def toUserResponse_def Let_def)

section \<open>Properties of the retry strategy\<close>

lemma retry_loop_success:
  "i \<le> k \<Longrightarrow> int k < m \<Longrightarrow> (\<forall>j. i \<le> j \<and> j < k \<longrightarrow> isl (fn j)) \<Longrightarrow> fn k = Inr v
   \<Longrightarrow> retry_loop fn m i slept = (Returned v, slept @ map delay [i..<k])"
proof (induction "k - i" arbitrary: i slept)
  case 0
  then have "i = k" by simp
  with 0 show ?case by simp
next
  case (Suc d)
  then have lt: "i < k" by simp
  with Suc.prems obtain err where e: "fn i = Inl err"
    by (cases "fn i") auto
  have ne: "int i \<noteq> m - 1" using lt Suc.prems by simp
  have step: "retry_loop fn m (i + 1) (slept @ [delay i]) = (Returned v, (slept @ [delay i]) @ map delay [i + 1..<k])"
    using Suc.hyps Suc.prems lt by (intro Suc.hyps(1)) auto
  have "retry_loop fn m i slept = retry_loop fn m (i + 1) (slept @ [delay i])"
    using e ne lt Suc.prems by simp
  with step show ?case using lt by (simp add: upt_conv_Cons)
qed

lemma retry_loop_exhausted:
  "int i < m \<Longrightarrow> (\<forall>j. i \<le> j \<and> int j < m \<longrightarrow> isl (fn j))
   \<Longrightarrow> retry_loop fn m i slept = (Thrown (projl (fn (nat (m - 1)))), slept @ map delay [i..<nat (m - 1)])"
proof (induction "nat (m - 1) - i" arbitrary: i slept)
  case 0
  then have eq: "int i = m - 1" by simp
  then have "nat (m - 1) = i" by simp
  moreover from 0 obtain err where "fn i = Inl err" by (cases "fn i") auto
  ultimately show ?case using 0 eq by simp
next
  case (Suc d)
  then have lt: "i < nat (m - 1)" by simp
  then have ne: "int i \<noteq> m - 1" by simp
  from Suc.prems obtain err where e: "fn i = Inl err" by (cases "fn i") auto
  have step: "retry_loop fn m (i + 1) (slept @ [delay i])
      = (Thrown (projl (fn (nat (m - 1)))), (slept @ [delay i]) @ map delay [i + 1..<nat (m - 1)])"
    using Suc.hyps Suc.prems lt by (intro Suc.hyps(1)) auto
  have "retry_loop fn m i slept = retry_loop fn m (i + 1) (slept @ [delay i])"
    using e ne Suc.prems by simp
  with step show ?case using lt by (simp add: upt_conv_Cons)
qed

lemma retry_loop_defined:
  "int i < m \<Longrightarrow> fst (retry_loop fn m i slept) \<noteq> ReturnedUndefined"
proof (induction fn m i slept rule: retry_loop.induct)
  case (1 fn maxRetries i slept)
  show ?case
  proof (cases "fn i")
    case (Inr v)
    with "1.prems" show ?thesis by simp
  next
    case (Inl err)
    show ?thesis
    proof (cases "int i = maxRetries - 1")
      case True
      with Inl "1.prems" show ?thesis by simp
    next
      case False
      then have "int (i + 1) < maxRetries" using "1.prems" by simp
      then have "fst (retry_loop fn maxRetries (i + 1) (slept @ [delay i])) \<noteq> ReturnedUndefined"
        using "1.IH" [OF "1.prems" Inl False] by simp
      with Inl False "1.prems" show ?thesis by simp
    qed
  qed
qed

lemma delay_bounds: "delay i \<le> 10000 \<and> delay 0 = 1000 \<and> (i \<le> 3 \<longrightarrow> delay i = 1000 * 2 ^ i) \<and> (4 \<le> i \<longrightarrow> delay i = 10000)"
proof -
  have a: "i \<le> 3 \<Longrightarrow> (2::nat) ^ i \<le> 2 ^ 3" by (rule power_increasing) simp_all
  have b: "4 \<le> i \<Longrightarrow> (2::nat) ^ 4 \<le> 2 ^ i" by (rule power_increasing) simp_all
  show ?thesis using a b by (auto simp: delay_def min_def)
qed

text \<open>
  C7 as stated fails: by default an operation that keeps failing is attempted three
  times, not five, and its last error is then thrown to the caller (the retry code
  has no dead-letter channel); the delay is capped at ten seconds, not thirty (with
  seven attempts the delays are 1, 2, 4, 8, 10 and 10 seconds).
\<close>

theorem retry_policy_counterexample:
  "retryWithBackoff boom None = (Thrown ''boom'', [1000, 2000])
   \<and> retryWithBackoff boom (Some 7) = (Thrown ''boom'', [1000, 2000, 4000, 8000, 10000, 10000])"
  by (simp add: retryWithBackoff_def boom_def delay_def)

text \<open>
  C7, amended. \<open>retryWithBackoff\<close> makes at most \<open>maxRetries\<close> attempts, 3 by default.
  With \<open>maxRetries\<close> of at least 1: when every attempt fails, the error of the last
  attempt is thrown to the caller, after the delays of the attempts before it; when
  attempt \<open>k\<close> is the first to succeed, its value is returned after the delays of the
  \<open>k\<close> failed attempts. The delay after the failed attempt \<open>i\<close> is
  \<open>min (1000 * 2 ^ i) 10000\<close> milliseconds: it starts at one second, doubles, and is
  capped at ten seconds. The function never returns without a value of \<open>fn\<close> or an
  error.
\<close>

theorem retryWithBackoff_policy:
  "retryWithBackoff fn None = retryWithBackoff fn (Some 3)
   \<and> (1 \<le> m \<and> (\<forall>j. int j < m \<longrightarrow> isl (fn j)) \<longrightarrow>
        retryWithBackoff fn (Some m)
          = (Thrown (projl (fn (nat (m - 1)))), map delay [0..<nat (m - 1)]))
   \<and> (int k < m \<and> (\<forall>j<k. isl (fn j)) \<and> fn k = Inr v \<longrightarrow>
        retryWithBackoff fn (Some m) = (Returned v, map delay [0..<k]))
   \<and> (1 \<le> m \<longrightarrow> fst (retryWithBackoff fn (Some m)) \<noteq> ReturnedUndefined)
   \<and> delay i \<le> 10000 \<and> delay 0 = 1000
   \<and> (i \<le> 3 \<longrightarrow> delay i = 1000 * 2 ^ i) \<and> (4 \<le> i \<longrightarrow> delay i = 10000)"
proof -
  have a: "retryWithBackoff fn None = retryWithBackoff fn (Some 3)"
    by (simp add: retryWithBackoff_def)
  have b: "retryWithBackoff fn (Some m)
          = (Thrown (projl (fn (nat (m - 1)))), map delay [0..<nat (m - 1)])"
    if "1 \<le> m \<and> (\<forall>j. int j < m \<longrightarrow> isl (fn j))"
    using that retry_loop_exhausted [of 0 m fn "[]"] by (simp add: retryWithBackoff_def)
  have c: "retryWithBackoff fn (Some m) = (Returned v, map delay [0..<k])"
    if "int k < m \<and> (\<forall>j<k. isl (fn j)) \<and> fn k = Inr v"
    using that retry_loop_success [of 0 k m fn v "[]"] by (simp add: retryWithBackoff_def)
  have d: "fst (retryWithBackoff fn (Some m)) \<noteq> ReturnedUndefined" if "1 \<le> m"
    using that retry_loop_defined [of 0 m fn "[]"] by (simp add: retryWithBackoff_def)
  show ?thesis using a b c d delay_bounds [of i] by blast
qed

theorem retryWithBackoff_policy_witness:
  "retryWithBackoff boom (Some 3) = (Thrown ''boom'', [1000, 2000])
   \<and> retryWithBackoff flaky (Some 5) = (Returned 2, [1000, 2000])
   \<and> delay 3 = 8000 \<and> delay 4 = 10000"
  using retryWithBackoff_policy [of boom 3 2 2 3]
    retryWithBackoff_policy [of flaky 5 2 2 4]
  by (simp add: boom_def flaky_def delay_def less_Suc_eq numeral_2_eq_2 numeral_3_eq_3)

text \<open>
  X1. With \<open>maxRetries\<close> of 0 or less the loop is not entered: \<open>retryWithBackoff\<close>
  returns \<open>undefined\<close> without calling \<open>fn\<close> and without an error.
\<close>

theorem retry_without_attempt:
  "m \<le> 0 \<longrightarrow> retryWithBackoff fn (Some m) = (ReturnedUndefined, [])"
  by (simp add: retryWithBackoff_def)

theorem retry_without_attempt_witness:
  "retryWithBackoff flaky (Some 0) = (ReturnedUndefined, [])"
  using retry_without_attempt [of 0 flaky] by simp

section \<open>Properties of the idempotency patterns\<close>

lemma stored_keys_append:
  "stored_keys (rows @ [p]) = stored_keys rows @ (case idempotency_key p of None \<Rightarrow> [] | Some k \<Rightarrow> [k])"
  by (simp add: stored_keys_def List.map_filter_def split: option.splits)

lemma set_stored_keys: "set (stored_keys rows) = {k. \<exists>p \<in> set rows. idempotency_key p = Some k}"
  by (induction rows) (auto simp: stored_keys_def map_filter_simps split: option.splits)

lemma find_key_None: "findByIdempotencyKey rows k = None \<longleftrightarrow> k \<notin> set (stored_keys rows)"
  by (auto simp: findByIdempotencyKey_def find_None_iff set_stored_keys)

lemma find_key_append:
  "findByIdempotencyKey rows k = Some p \<Longrightarrow> findByIdempotencyKey (rows @ rest) k = Some p"
  by (induction rows) (auto simp: findByIdempotencyKey_def)

lemma find_key_new:
  "findByIdempotencyKey rows k = None \<Longrightarrow> idempotency_key p = Some k
   \<Longrightarrow> findByIdempotencyKey (rows @ [p]) k = Some p"
  by (induction rows) (auto simp: findByIdempotencyKey_def split: if_splits)

lemma save_result: "save rows p = Inr rows' \<Longrightarrow> rows' = rows @ [p]"
  by (auto simp: save_def split: if_splits)

lemma processPayment_db:
  "processPayment perf d k svc = (r, svc')
   \<Longrightarrow> db svc' = db svc
       \<or> (\<exists>p. db svc' = db svc @ [p] \<and> idempotency_key p = Some k \<and> findByIdempotencyKey (db svc) k = None \<and> r = Inr p)"
  by (auto simp: processPayment_def Let_def split: option.splits sum.splits prod.splits dest!: save_result)

lemma processPayment_distinct:
  assumes "distinct (stored_keys (db svc))"
  shows "distinct (stored_keys (db (snd (processPayment perf d k svc))))"
proof -
  obtain r svc' where e: "processPayment perf d k svc = (r, svc')" by (cases "processPayment perf d k svc")
  from processPayment_db [OF e] assms show ?thesis
    by (auto simp: e stored_keys_append find_key_None)
qed

lemma processPayment_keeps:
  assumes "findByIdempotencyKey (db svc) k = Some p"
  shows "findByIdempotencyKey (db (snd (processPayment perf d k' svc))) k = Some p"
proof -
  obtain r svc' where e: "processPayment perf d k' svc = (r, svc')" by (cases "processPayment perf d k' svc")
  from processPayment_db [OF e] assms show ?thesis
    by (auto simp: e find_key_append)
qed

lemma processPayment_stored:
  assumes "processPayment perf d k svc = (Inr p, svc')"
  shows "findByIdempotencyKey (db svc') k = Some p"
  using assms
  by (auto simp: processPayment_def Let_def find_key_new split: option.splits sum.splits prod.splits dest!: save_result)

lemma processPayment_existing:
  "findByIdempotencyKey (db svc) k = Some p \<Longrightarrow> processPayment perf d k svc = (Inr p, svc)"
  by (simp add: processPayment_def)

lemma run_payments_distinct:
  "distinct (stored_keys (db svc)) \<Longrightarrow> distinct (stored_keys (db (run_payments perf cmds svc)))"
  by (induction cmds arbitrary: svc) (auto simp: processPayment_distinct)

lemma run_payments_keeps:
  "findByIdempotencyKey (db svc) k = Some p \<Longrightarrow> findByIdempotencyKey (db (run_payments perf cmds svc)) k = Some p"
  by (induction cmds arbitrary: svc) (auto simp: processPayment_keeps)

lemma succeeded_for_le_1:
  "distinct (stored_keys rows) \<Longrightarrow> length (succeeded_for k rows) \<le> 1"
proof (induction rows)
  case Nil
  then show ?case by (simp add: succeeded_for_def)
next
  case (Cons p rows)
  have d: "distinct (stored_keys rows)"
    using Cons.prems by (auto simp: stored_keys_def List.map_filter_def split: if_splits)
  show ?case
  proof (cases "idempotency_key p = Some k")
    case True
    then have "k \<notin> set (stored_keys rows)"
      using Cons.prems by (auto simp: stored_keys_def List.map_filter_def)
    then have "succeeded_for k rows = []"
      by (auto simp: succeeded_for_def set_stored_keys filter_empty_conv)
    then show ?thesis by (simp add: succeeded_for_def)
  next
    case False
    then show ?thesis using Cons.IH [OF d] by (simp add: succeeded_for_def)
  qed
qed

text \<open>
  C3. Over every sequence of payment commands, run from a table in which no two rows
  share an idempotency key (the \<open>UNIQUE\<close> constraint; the empty table is one), no two
  rows of the resulting table share a key, so at most one row with the key \<open>k\<close> has
  the status success. Once \<open>processPayment\<close> has returned a payment for the key \<open>k\<close>,
  every later command with that key, whatever its payment data and whatever was run
  in between, returns that payment and leaves the table and the provider's side as
  they are: \<open>performPayment\<close> is not called again.
\<close>

theorem payment_idempotency:
  "distinct (stored_keys (db svc)) \<longrightarrow>
     distinct (stored_keys (db (run_payments performPayment cmds svc)))
     \<and> length (succeeded_for k (db (run_payments performPayment cmds svc))) \<le> 1
     \<and> (\<forall>d p svc'. processPayment performPayment d k svc = (Inr p, svc') \<longrightarrow>
          (\<forall>d'. processPayment performPayment d' k (run_payments performPayment cmds svc')
                 = (Inr p, run_payments performPayment cmds svc')))"
proof (intro impI conjI allI)
  assume d: "distinct (stored_keys (db svc))"
  show "distinct (stored_keys (db (run_payments performPayment cmds svc)))"
    using d by (rule run_payments_distinct)
  then show "length (succeeded_for k (db (run_payments performPayment cmds svc))) \<le> 1"
    by (rule succeeded_for_le_1)
next
  fix d p svc' d'
  assume "processPayment performPayment d k svc = (Inr p, svc')"
  then have "findByIdempotencyKey (db svc') k = Some p" by (rule processPayment_stored)
  then have "findByIdempotencyKey (db (run_payments performPayment cmds svc')) k = Some p"
    by (rule run_payments_keeps)
  then show "processPayment performPayment d' k (run_payments performPayment cmds svc')
                 = (Inr p, run_payments performPayment cmds svc')"
    by (rule processPayment_existing)
qed

theorem payment_idempotency_witness:
  "distinct (stored_keys (db svc0))
   \<and> gateway (run_payments charge [(5998, ''k1''), (100, ''k2''), (5998, ''k1''), (7000, ''k1'')] svc0)
       = [5998, 100]
   \<and> length (succeeded_for ''k1''
               (db (run_payments charge [(5998, ''k1''), (100, ''k2''), (5998, ''k1''), (7000, ''k1'')] svc0)))
       = 1
   \<and> fst (processPayment charge 7000 ''k1''
            (run_payments charge [(100, ''k2'')] (snd (processPayment charge 5998 ''k1'' svc0))))
       = fst (processPayment charge 5998 ''k1'' svc0)"
  using payment_idempotency [of svc0 charge "[(100, ''k2'')]" "''k1''"]
  by (simp add: svc0_def charge_def processPayment_def findByIdempotencyKey_def save_def
        stored_keys_def succeeded_for_def map_filter_simps Let_def)

text \<open>
  X4. A payment command that throws (in \<open>performPayment\<close> or in \<open>save\<close>) stores no row.
\<close>

theorem failed_payment_stores_nothing:
  "fst (processPayment performPayment d k svc) = Inl e
     \<longrightarrow> db (snd (processPayment performPayment d k svc)) = db svc"
  by (auto simp: processPayment_def Let_def split: option.splits prod.splits sum.splits)

theorem failed_payment_stores_nothing_witness:
  "processPayment charge 0 ''k9'' svc0 = (Inl (Error ''declined''), svc0)"
  using failed_payment_stores_nothing [of charge 0 "''k9''" svc0 "Error ''declined''"]
  by (simp add: processPayment_def charge_def svc0_def findByIdempotencyKey_def)

text \<open>
  C2. When a consumer has handled an event successfully, handling an event with the
  same \<open>event_id\<close> again returns at once: the consumer's state (its effects, its set
  of processed events, its Redis keys) after the second delivery is the state after
  the first, so \<open>processEvent\<close> has no further effect.
\<close>

theorem event_redelivery_no_effect:
  assumes "handleEvent processEvent ev c = (Inr (), c')" and "event_id ev' = event_id ev"
  shows "handleEvent processEvent ev' c' = (Inr (), c')"
  using assms by (auto simp: handleEvent_def split: if_splits prod.splits sum.splits)

theorem event_redelivery_no_effect_witness:
  "handleEvent count_event payment_failed_O5 consumer0
     = (Inr (), snd (handleEvent count_event payment_failed_O5 consumer0))
   \<and> handleEvent count_event payment_failed_O5 (snd (handleEvent count_event payment_failed_O5 consumer0))
     = (Inr (), snd (handleEvent count_event payment_failed_O5 consumer0))
   \<and> effects (snd (handleEvent count_event payment_failed_O5
                     (snd (handleEvent count_event payment_failed_O5 consumer0)))) = 1"
  using event_redelivery_no_effect [of count_event payment_failed_O5 consumer0
      "snd (handleEvent count_event payment_failed_O5 consumer0)" payment_failed_O5]
  by (simp add: handleEvent_def count_event_def consumer0_def)

section \<open>Properties of the saga handlers\<close>

lemma order_id_order_only: "event_data.order_id (order_only oid) = oid"
  by (simp add: order_only_def)

text \<open>
  C4 as stated fails: \<open>onPaymentFailed\<close> calls \<open>updateOrderStatus(order_id, 'failed')\<close>
  and publishes \<open>order.failed\<close>. For the pending order O5, whose two units of SKU-A
  are reserved, the status after \<open>payment.failed\<close> is failed, not cancelled.
\<close>

theorem payment_failed_status_counterexample:
  "map_option order.status (orders world0 ''O5'') = Some ''pending''
   \<and> map_option reservation.status (reservations (inventory world0) ''O5'') = Some active
   \<and> fst (onPaymentFailed set_status payment_failed_O5 world0) = Inr ()
   \<and> map_option order.status (orders (snd (onPaymentFailed set_status payment_failed_O5 world0)) ''O5'')
       = Some ''failed''
   \<and> map_option order.status (orders (snd (onPaymentFailed set_status payment_failed_O5 world0)) ''O5'')
       \<noteq> Some ''cancelled''
   \<and> map event_type (published (snd (onPaymentFailed set_status payment_failed_O5 world0)))
       = [''order.failed'']"
  by (simp add: world0_def inventory0_def stock0_def sku_A_def sku_B_def order_O5_def
        payment_failed_O5_def payment_success_O5_def
        onPaymentFailed_def set_status_def publish_def reserve_def reserve_one_def Let_def)

text \<open>
  C4, amended. When \<open>payment.failed\<close> is processed for an order, and the status update
  and the release succeed: \<open>OrderService.onPaymentFailed\<close> sets the order's status to
  failed (it calls \<open>updateOrderStatus(order_id, 'failed')\<close>) and publishes
  \<open>order.failed\<close>; \<open>InventoryService.onOrderFailed\<close>, given that event, calls
  \<open>releaseInventory\<close> for the order and publishes \<open>inventory.released\<close>; neither
  handler touches the payments, so no payment with the status success arises.
\<close>

theorem payment_failed_compensation:
  assumes "updateOrderStatus (event_data.order_id (data ev)) ''failed'' (orders w) = (Inr (), os)"
    and "releaseInventory (event_data.order_id (data ev)) (inventory w) = (Inr (), iv)"
  shows "onPaymentFailed updateOrderStatus ev w
           = (Inr (), \<lparr> orders = os, inventory = inventory w, payments = payments w,
                        published = published w
                          @ [\<lparr> event_type = ''order.failed'',
                               data = order_only (event_data.order_id (data ev)) \<rparr>] \<rparr>)
       \<and> onOrderFailed releaseInventory
            \<lparr> event_type = ''order.failed'', data = order_only (event_data.order_id (data ev)) \<rparr>
            (snd (onPaymentFailed updateOrderStatus ev w))
           = (Inr (), \<lparr> orders = os, inventory = iv, payments = payments w,
                        published = published w
                          @ [\<lparr> event_type = ''order.failed'',
                               data = order_only (event_data.order_id (data ev)) \<rparr>,
                             \<lparr> event_type = ''inventory.released'',
                               data = order_only (event_data.order_id (data ev)) \<rparr>] \<rparr>)"
  using assms by (cases w) (simp add: onPaymentFailed_def onOrderFailed_def publish_def Let_def order_id_order_only)

theorem payment_failed_compensation_witness:
  "map_option order.status (orders (snd (onPaymentFailed set_status payment_failed_O5 world0)) ''O5'')
       = Some ''failed''
   \<and> (let w2 = snd (onOrderFailed release
                      \<lparr> event_type = ''order.failed'', data = order_only ''O5'' \<rparr>
                      (snd (onPaymentFailed set_status payment_failed_O5 world0)))
      in map event_type (published w2) = [''order.failed'', ''inventory.released'']
         \<and> quantity_available (stock (inventory w2) sku_A) = 5
         \<and> quantity_reserved (stock (inventory w2) sku_A) = 0
         \<and> map_option reservation.status (reservations (inventory w2) ''O5'') = Some released
         \<and> payments w2 = [])"
  using payment_failed_compensation [of set_status payment_failed_O5 world0
      "snd (set_status ''O5'' ''failed'' (orders world0))" release
      "snd (release ''O5'' (inventory world0))"]
  by (simp add: world0_def inventory0_def stock0_def sku_A_def sku_B_def order_O5_def
        payment_failed_O5_def payment_success_O5_def
        set_status_def release_def reserve_def reserve_one_def Let_def order_only_def
        onPaymentFailed_def onOrderFailed_def publish_def)

text \<open>
  C6 as stated fails. The order O5 is pending, and \<open>stale_payment_failed_O5\<close> asks for
  its transition with the version 0 in its payload. Once \<open>payment.success\<close> has made
  the order confirmed, that request is stale; \<open>onPaymentFailed\<close> still applies it, and
  the order becomes failed: the handler reads \<open>order_id\<close> from the payload and nothing
  else, and the orders table has no version to compare with.
\<close>

theorem stale_request_applied_counterexample:
  "map_option order.status (orders world0 ''O5'') = Some ''pending''
   \<and> version (data stale_payment_failed_O5) = 0
   \<and> map_option order.status
        (orders (snd (onPaymentSuccess set_status payment_success_O5 world0)) ''O5'') = Some ''confirmed''
   \<and> fst (onPaymentFailed set_status stale_payment_failed_O5
            (snd (onPaymentSuccess set_status payment_success_O5 world0))) = Inr ()
   \<and> map_option order.status
        (orders (snd (onPaymentFailed set_status stale_payment_failed_O5
                       (snd (onPaymentSuccess set_status payment_success_O5 world0)))) ''O5'')
       = Some ''failed''"
  by (simp add: world0_def order_O5_def payment_success_O5_def stale_payment_failed_O5_def
        onPaymentFailed_def onPaymentSuccess_def set_status_def publish_def Let_def)

text \<open>
  C6, amended. The orders table has no version column, and the handlers of the
  payment events read the \<open>order_id\<close> of the payload and nothing else: whatever
  \<open>updateOrderStatus\<close> does, two events for the same order have the same outcome,
  whatever else they carry. With \<open>updateOrderStatus\<close> the update of the status column,
  the transition is applied whatever the status of the order is: \<open>onPaymentSuccess\<close>
  sets it to confirmed and publishes \<open>order.confirmed\<close>, \<open>onPaymentFailed\<close> sets it to
  failed and publishes \<open>order.failed\<close>; none is rejected.
\<close>

theorem status_update_unconditional:
  "(event_data.order_id (data ev) = event_data.order_id (data ev') \<longrightarrow>
      onPaymentSuccess updateOrderStatus ev w = onPaymentSuccess updateOrderStatus ev' w
      \<and> onPaymentFailed updateOrderStatus ev w = onPaymentFailed updateOrderStatus ev' w)
   \<and> (orders w1 (event_data.order_id (data ev)) = Some ord \<longrightarrow>
        onPaymentSuccess set_status ev w1
          = (Inr (), \<lparr> orders = (orders w1)(event_data.order_id (data ev) \<mapsto> ord\<lparr>order.status := ''confirmed''\<rparr>),
                       inventory = inventory w1, payments = payments w1,
                       published = published w1
                         @ [\<lparr> event_type = ''order.confirmed'',
                              data = order_only (event_data.order_id (data ev)) \<rparr>] \<rparr>)
        \<and> onPaymentFailed set_status ev w1
          = (Inr (), \<lparr> orders = (orders w1)(event_data.order_id (data ev) \<mapsto> ord\<lparr>order.status := ''failed''\<rparr>),
                       inventory = inventory w1, payments = payments w1,
                       published = published w1
                         @ [\<lparr> event_type = ''order.failed'',
                              data = order_only (event_data.order_id (data ev)) \<rparr>] \<rparr>))"
proof (intro conjI impI)
  assume "event_data.order_id (data ev) = event_data.order_id (data ev')"
  then show "onPaymentSuccess updateOrderStatus ev w = onPaymentSuccess updateOrderStatus ev' w"
    and "onPaymentFailed updateOrderStatus ev w = onPaymentFailed updateOrderStatus ev' w"
    by (simp_all add: onPaymentSuccess_def onPaymentFailed_def)
next
  assume "orders w1 (event_data.order_id (data ev)) = Some ord"
  then show "onPaymentSuccess set_status ev w1
          = (Inr (), \<lparr> orders = (orders w1)(event_data.order_id (data ev) \<mapsto> ord\<lparr>order.status := ''confirmed''\<rparr>),
                       inventory = inventory w1, payments = payments w1,
                       published = published w1
                         @ [\<lparr> event_type = ''order.confirmed'',
                              data = order_only (event_data.order_id (data ev)) \<rparr>] \<rparr>)"
    and "onPaymentFailed set_status ev w1
          = (Inr (), \<lparr> orders = (orders w1)(event_data.order_id (data ev) \<mapsto> ord\<lparr>order.status := ''failed''\<rparr>),
                       inventory = inventory w1, payments = payments w1,
                       published = published w1
                         @ [\<lparr> event_type = ''order.failed'',
                              data = order_only (event_data.order_id (data ev)) \<rparr>] \<rparr>)"
    by (cases w1; simp add: onPaymentSuccess_def onPaymentFailed_def set_status_def publish_def Let_def)+
qed

theorem status_update_unconditional_witness:
  "onPaymentFailed set_status stale_payment_failed_O5 world0
     = onPaymentFailed set_status payment_failed_O5 world0
   \<and> orders world0 ''O5'' = Some order_O5
   \<and> map_option order.status
        (orders (snd (onPaymentSuccess set_status stale_payment_failed_O5 world0)) ''O5'') = Some ''confirmed''
   \<and> map_option order.status
        (orders (snd (onPaymentFailed set_status stale_payment_failed_O5 world0)) ''O5'') = Some ''failed''"
  using status_update_unconditional [of stale_payment_failed_O5 payment_failed_O5 set_status world0
      world0 order_O5]
  by (simp add: world0_def stale_payment_failed_O5_def payment_failed_O5_def order_O5_def
        onPaymentFailed_def onPaymentSuccess_def set_status_def publish_def Let_def)

section \<open>Properties of the inventory reservation manager\<close>

lemma requested_absent: "u \<notin> fst ` set its \<Longrightarrow> requested its u = 0"
  by (induction its) auto

lemma reserve_one_level:
  "reserve_one u q st = Some st' \<Longrightarrow>
     st' v = \<lparr> quantity_available = quantity_available (st v) - int (if u = v then q else 0),
              quantity_reserved = quantity_reserved (st v) + int (if u = v then q else 0) \<rparr>"
  by (auto simp: reserve_one_def split: if_splits)

lemma reserve_all_level:
  "reserve_all its st = Some st' \<Longrightarrow>
     st' v = \<lparr> quantity_available = quantity_available (st v) - int (requested its v),
              quantity_reserved = quantity_reserved (st v) + int (requested its v) \<rparr>"
proof (induction its arbitrary: st)
  case Nil
  then show ?case by simp
next
  case (Cons a its)
  obtain u q where a: "a = (u, q)" by (cases a)
  from Cons.prems a obtain st1 where s1: "reserve_one u q st = Some st1" and r: "reserve_all its st1 = Some st'"
    by (auto split: option.splits)
  show ?case
    using Cons.IH [OF r] reserve_one_level [OF s1, of v] a by auto
qed

lemma reserve_all_Some:
  "(\<exists>st'. reserve_all its st = Some st') \<longleftrightarrow>
     (\<forall>u \<in> fst ` set its. int (requested its u) \<le> quantity_available (st u))"
proof (induction its arbitrary: st)
  case Nil
  then show ?case by simp
next
  case (Cons a its)
  obtain u q where a: "a = (u, q)" by (cases a)
  show ?case
  proof (cases "int q \<le> quantity_available (st u)")
    case False
    then have "reserve_all (a # its) st = None" by (simp add: a reserve_one_def)
    moreover have "\<not> int (requested (a # its) u) \<le> quantity_available (st u)"
      using False by (simp add: a)
    ultimately show ?thesis by (auto simp: a)
  next
    case True
    then obtain st1 where s1: "reserve_one u q st = Some st1" by (auto simp: reserve_one_def)
    have lv: "\<And>v. quantity_available (st1 v) = quantity_available (st v) - int (if u = v then q else 0)"
      using reserve_one_level [OF s1] by simp
    have "(\<exists>st'. reserve_all (a # its) st = Some st') \<longleftrightarrow> (\<exists>st'. reserve_all its st1 = Some st')"
      by (simp add: a s1)
    also have "\<dots> \<longleftrightarrow> (\<forall>v \<in> fst ` set its. int (requested its v) \<le> quantity_available (st1 v))"
      by (rule Cons.IH)
    also have "\<dots> \<longleftrightarrow> (\<forall>v \<in> fst ` set (a # its). int (requested (a # its) v) \<le> quantity_available (st v))"
    proof (cases "u \<in> fst ` set its")
      case True
      then show ?thesis by (auto simp: a lv)
    next
      case False
      then have "requested its u = 0" by (rule requested_absent)
      with False \<open>int q \<le> quantity_available (st u)\<close> show ?thesis
        by (auto simp: a lv)
    qed
    finally show ?thesis .
  qed
qed

lemma requested_distinct:
  "distinct (map fst its) \<Longrightarrow> (u, q) \<in> set its \<Longrightarrow> requested its u = q"
  by (induction its) (auto simp: requested_absent image_iff)

lemma per_tuple_iff:
  assumes "distinct (map fst its)"
  shows "(\<forall>u \<in> fst ` set its. int (requested its u) \<le> quantity_available (st u))
     \<longleftrightarrow> (\<forall>(u, q) \<in> set its. int q \<le> quantity_available (st u))"
  using requested_distinct [OF assms] by fastforce

text \<open>
  C1. For every reservation request: if for every unit of the request the available
  stock is at least the quantity requested of it, \<open>reserve\<close> succeeds, creates the
  order's reservation, active, with the request's tuples and expiry \<open>now + ttl\<close>
  (15 minutes when no \<open>ttl\<close> is given), and moves exactly the requested quantity of
  every unit from available to reserved, leaving every other unit and every other
  order's reservation as they are; otherwise it returns \<open>InsufficientStock\<close> and the
  state is unchanged. When no unit occurs twice in the request, the condition is
  that of each tuple on its own.
\<close>

theorem reserve_all_or_nothing:
  "((\<forall>u \<in> fst ` set its. int (requested its u) \<le> quantity_available (stock iv u)) \<longrightarrow>
      (\<exists>r iv'. reserve now orderId its ttl iv = (Inr r, iv')
         \<and> r = \<lparr> tuples = its, status = active,
                  expires_at = now + (case ttl of None \<Rightarrow> 15 * 60 | Some t \<Rightarrow> t) \<rparr>
         \<and> reservations iv' = (reservations iv)(orderId \<mapsto> r)
         \<and> (\<forall>u. quantity_available (stock iv' u) = quantity_available (stock iv u) - int (requested its u)
                \<and> quantity_reserved (stock iv' u) = quantity_reserved (stock iv u) + int (requested its u))))
   \<and> (\<not> (\<forall>u \<in> fst ` set its. int (requested its u) \<le> quantity_available (stock iv u)) \<longrightarrow>
        reserve now orderId its ttl iv = (Inl InsufficientStock, iv))
   \<and> (distinct (map fst its) \<longrightarrow>
        (\<forall>u \<in> fst ` set its. int (requested its u) \<le> quantity_available (stock iv u))
          = (\<forall>(u, q) \<in> set its. int q \<le> quantity_available (stock iv u)))"
proof (intro conjI impI)
  assume ok: "\<forall>u \<in> fst ` set its. int (requested its u) \<le> quantity_available (stock iv u)"
  then obtain st' where s: "reserve_all its (stock iv) = Some st'"
    using reserve_all_Some [of its "stock iv"] by blast
  show "\<exists>r iv'. reserve now orderId its ttl iv = (Inr r, iv')
         \<and> r = \<lparr> tuples = its, status = active,
                  expires_at = now + (case ttl of None \<Rightarrow> 15 * 60 | Some t \<Rightarrow> t) \<rparr>
         \<and> reservations iv' = (reservations iv)(orderId \<mapsto> r)
         \<and> (\<forall>u. quantity_available (stock iv' u) = quantity_available (stock iv u) - int (requested its u)
                \<and> quantity_reserved (stock iv' u) = quantity_reserved (stock iv u) + int (requested its u))"
    using reserve_all_level [OF s] by (cases ttl) (simp_all add: reserve_def s default_ttl_def Let_def)
next
  assume "\<not> (\<forall>u \<in> fst ` set its. int (requested its u) \<le> quantity_available (stock iv u))"
  then have "reserve_all its (stock iv) = None"
    using reserve_all_Some [of its "stock iv"] by (cases "reserve_all its (stock iv)") auto
  then show "reserve now orderId its ttl iv = (Inl InsufficientStock, iv)"
    by (simp add: reserve_def)
next
  assume "distinct (map fst its)"
  then show "(\<forall>u \<in> fst ` set its. int (requested its u) \<le> quantity_available (stock iv u))
          = (\<forall>(u, q) \<in> set its. int q \<le> quantity_available (stock iv u))"
    by (rule per_tuple_iff)
qed

theorem reserve_all_or_nothing_witness:
  "fst (reserve 100 ''O1'' [(sku_A, 2)] None inventory0)
     = Inr \<lparr> tuples = [(sku_A, 2)], status = active, expires_at = 1000 \<rparr>
   \<and> quantity_available (stock (snd (reserve 100 ''O1'' [(sku_A, 2)] None inventory0)) sku_A) = 3
   \<and> quantity_reserved (stock (snd (reserve 100 ''O1'' [(sku_A, 2)] None inventory0)) sku_A) = 2
   \<and> reserve 200 ''O3'' [(sku_B, 1), (sku_A, 1)] (Some 60) (snd (reserve 100 ''O2'' [(sku_A, 5)] None inventory0))
     = (Inl InsufficientStock, snd (reserve 100 ''O2'' [(sku_A, 5)] None inventory0))"
  using reserve_all_or_nothing [of "[(sku_A, 2)]" inventory0 100 "''O1''" None]
    reserve_all_or_nothing [of "[(sku_B, 1), (sku_A, 1)]"
      "snd (reserve 100 ''O2'' [(sku_A, 5)] None inventory0)" 200 "''O3''" "Some 60"]
  by (simp add: inventory0_def stock0_def sku_A_def sku_B_def reserve_def reserve_one_def Let_def default_ttl_def)

lemma release_again: "release orderId (snd (release orderId iv)) = (Inr (), snd (release orderId iv))"
  by (simp add: release_def split: option.splits)

lemma finalize_again:
  "now \<le> now' \<Longrightarrow> snd (finalize now' orderId (snd (finalize now orderId iv))) = snd (finalize now orderId iv)"
  by (auto simp: finalize_def split: option.splits reservation_status.splits)

lemma finalize_again_ok:
  "fst (finalize now orderId iv) = Inr ()
   \<Longrightarrow> finalize now' orderId (snd (finalize now orderId iv)) = (Inr (), snd (finalize now orderId iv))"
  by (auto simp: finalize_def split: option.splits reservation_status.splits if_splits)

text \<open>
  C5. A second \<open>release\<close> of an order is a no-op that returns success: the stock and
  the reservations after it are those after the first. \<open>release\<close> never returns an
  error, and on a reservation that is no longer active (released before, by hand or
  after its expiry, or fulfilled) it changes nothing. A second \<open>finalize\<close>, at the
  same or a later time, leaves the stock and the reservations as the first left them,
  and after a first \<open>finalize\<close> that succeeded it returns success.
\<close>

theorem release_finalize_idempotent:
  "release orderId (snd (release orderId iv)) = (Inr (), snd (release orderId iv))
   \<and> fst (release orderId iv) = Inr ()
   \<and> (\<forall>r. reservations iv orderId = Some r \<and> reservation.status r \<noteq> active
          \<longrightarrow> release orderId iv = (Inr (), iv))
   \<and> (now \<le> now' \<longrightarrow>
        snd (finalize now' orderId (snd (finalize now orderId iv))) = snd (finalize now orderId iv))
   \<and> (fst (finalize now orderId iv) = Inr () \<longrightarrow>
        finalize now' orderId (snd (finalize now orderId iv)) = (Inr (), snd (finalize now orderId iv)))"
proof (intro conjI impI allI)
  show "release orderId (snd (release orderId iv)) = (Inr (), snd (release orderId iv))"
    by (rule release_again)
  show "fst (release orderId iv) = Inr ()"
    by (simp add: release_def split: option.splits)
  show "release orderId iv = (Inr (), iv)"
    if "reservations iv orderId = Some r \<and> reservation.status r \<noteq> active" for r
    using that by (simp add: release_def)
  show "snd (finalize now' orderId (snd (finalize now orderId iv))) = snd (finalize now orderId iv)"
    if "now \<le> now'" using that by (rule finalize_again)
  show "finalize now' orderId (snd (finalize now orderId iv)) = (Inr (), snd (finalize now orderId iv))"
    if "fst (finalize now orderId iv) = Inr ()" using that by (rule finalize_again_ok)
qed

theorem release_finalize_idempotent_witness:
  "(let iv1 = snd (reserve 100 ''O1'' [(sku_A, 2)] None inventory0);
        iv2 = snd (finalize 500 ''O1'' iv1)
    in fst (finalize 500 ''O1'' iv1) = Inr ()
       \<and> finalize 2000 ''O1'' iv2 = (Inr (), iv2)
       \<and> quantity_available (stock iv2 sku_A) = 3 \<and> quantity_reserved (stock iv2 sku_A) = 0)
   \<and> (let iv1 = snd (reserve 100 ''O4'' [(sku_A, 2)] (Some 1) inventory0);
          iv2 = snd (release ''O4'' iv1)
      in release ''O4'' iv2 = (Inr (), iv2)
         \<and> quantity_available (stock iv2 sku_A) = 5 \<and> quantity_reserved (stock iv2 sku_A) = 0
         \<and> map_option reservation.status (reservations iv2 ''O4'') = Some released)"
  using release_finalize_idempotent [of "''O1''" "snd (reserve 100 ''O1'' [(sku_A, 2)] None inventory0)" 500 2000]
    release_finalize_idempotent [of "''O4''" "snd (reserve 100 ''O4'' [(sku_A, 2)] (Some 1) inventory0)" 500 2000]
  by (simp add: inventory0_def stock0_def sku_A_def sku_B_def reserve_def reserve_one_def Let_def
        default_ttl_def finalize_def release_def)

section \<open>Properties of the order cancellation\<close>

text \<open>
  C8. For an order of the table, \<open>CancelOrder\<close> is accepted if and only if the status
  is pending, \<open>inventory_reserved\<close> or confirmed, and then the status becomes cancelled;
  in the status shipped or delivered it is rejected with the flag for the return
  sub-flow; a cancellation that is not accepted leaves everything unchanged.
\<close>

theorem cancel_rule:
  assumes "orders w orderId = Some ord"
  shows "(fst (cancelOrder orderId why w) = CancelAccepted)
           = (order.status ord \<in> {''pending'', ''inventory_reserved'', ''confirmed''})
       \<and> (order.status ord \<in> {''shipped'', ''delivered''}
            \<longrightarrow> cancelOrder orderId why w = (CancelRejected True, w))
       \<and> (fst (cancelOrder orderId why w) \<noteq> CancelAccepted \<longrightarrow> snd (cancelOrder orderId why w) = w)
       \<and> (fst (cancelOrder orderId why w) = CancelAccepted
            \<longrightarrow> orders (snd (cancelOrder orderId why w)) orderId = Some (ord\<lparr>order.status := ''cancelled''\<rparr>))"
  using assms by (auto simp: cancelOrder_def publish_def)

theorem cancel_rule_witness:
  "fst (cancelOrder ''O5'' ''changed my mind'' world0) = CancelAccepted
   \<and> map_option order.status (orders (snd (cancelOrder ''O5'' ''changed my mind'' world0)) ''O5'')
       = Some ''cancelled''
   \<and> cancelOrder ''O5'' ''too late''
        (world0\<lparr>orders := [''O5'' \<mapsto> order_O5\<lparr>order.status := ''shipped''\<rparr>]\<rparr>)
       = (CancelRejected True, world0\<lparr>orders := [''O5'' \<mapsto> order_O5\<lparr>order.status := ''shipped''\<rparr>]\<rparr>)"
  using cancel_rule [of world0 "''O5''" order_O5 "''changed my mind''"]
    cancel_rule [of "world0\<lparr>orders := [''O5'' \<mapsto> order_O5\<lparr>order.status := ''shipped''\<rparr>]\<rparr>" "''O5''"
      "order_O5\<lparr>order.status := ''shipped''\<rparr>" "''too late''"]
  by (simp add: world0_def order_O5_def)

end
